theory Spec2Isabelle
  imports Complex_Main "HOL-Library.Log_Nat"
begin

section \<open>Numbers\<close>

text \<open>
  The pipeline computes on pandas columns of 64-bit floats. Rounding is not modelled: a
  finite float is a real number. What is modelled is how numpy and pandas go on, without
  raising, where real arithmetic stops: a null cell is \<open>NaN\<close>, a division by zero gives an
  infinity or \<open>NaN\<close>, every operation on \<open>NaN\<close> gives \<open>NaN\<close>, and every comparison with
  \<open>NaN\<close> is false. Signed zeros are not modelled (a zero divisor counts as \<open>+0\<close>).
\<close>

datatype npfloat = Fin real | PInf | NInf | NaN

instantiation npfloat :: "{plus, times, inverse, ord}"
begin

fun plus_npfloat :: "npfloat \<Rightarrow> npfloat \<Rightarrow> npfloat" where
  "plus_npfloat (Fin a) (Fin b) = Fin (a + b)"
| "plus_npfloat NaN _ = NaN"
| "plus_npfloat _ NaN = NaN"
| "plus_npfloat PInf NInf = NaN"
| "plus_npfloat NInf PInf = NaN"
| "plus_npfloat PInf _ = PInf"
| "plus_npfloat _ PInf = PInf"
| "plus_npfloat NInf _ = NInf"
| "plus_npfloat _ NInf = NInf"

fun times_npfloat :: "npfloat \<Rightarrow> npfloat \<Rightarrow> npfloat" where
  "times_npfloat (Fin a) (Fin b) = Fin (a * b)"
| "times_npfloat NaN _ = NaN"
| "times_npfloat _ NaN = NaN"
| "times_npfloat PInf (Fin b) = (if b = 0 then NaN else if 0 < b then PInf else NInf)"
| "times_npfloat NInf (Fin b) = (if b = 0 then NaN else if 0 < b then NInf else PInf)"
| "times_npfloat (Fin a) PInf = (if a = 0 then NaN else if 0 < a then PInf else NInf)"
| "times_npfloat (Fin a) NInf = (if a = 0 then NaN else if 0 < a then NInf else PInf)"
| "times_npfloat PInf PInf = PInf"
| "times_npfloat NInf NInf = PInf"
| "times_npfloat PInf NInf = NInf"
| "times_npfloat NInf PInf = NInf"

fun divide_npfloat :: "npfloat \<Rightarrow> npfloat \<Rightarrow> npfloat" where
  "divide_npfloat (Fin a) (Fin b) =
     (if b \<noteq> 0 then Fin (a / b) else if a = 0 then NaN else if 0 < a then PInf else NInf)"
| "divide_npfloat NaN _ = NaN"
| "divide_npfloat _ NaN = NaN"
| "divide_npfloat (Fin a) _ = Fin 0"
| "divide_npfloat PInf (Fin b) = (if 0 \<le> b then PInf else NInf)"
| "divide_npfloat NInf (Fin b) = (if 0 \<le> b then NInf else PInf)"
| "divide_npfloat PInf PInf = NaN"
| "divide_npfloat PInf NInf = NaN"
| "divide_npfloat NInf PInf = NaN"
| "divide_npfloat NInf NInf = NaN"

fun inverse_npfloat :: "npfloat \<Rightarrow> npfloat" where
  "inverse_npfloat (Fin a) = (if a \<noteq> 0 then Fin (1 / a) else PInf)"
| "inverse_npfloat NaN = NaN"
| "inverse_npfloat _ = Fin 0"

fun less_npfloat :: "npfloat \<Rightarrow> npfloat \<Rightarrow> bool" where
  "less_npfloat (Fin a) (Fin b) = (a < b)"
| "less_npfloat NaN _ = False"
| "less_npfloat _ NaN = False"
| "less_npfloat _ NInf = False"
| "less_npfloat PInf _ = False"
| "less_npfloat _ _ = True"

fun less_eq_npfloat :: "npfloat \<Rightarrow> npfloat \<Rightarrow> bool" where
  "less_eq_npfloat (Fin a) (Fin b) = (a \<le> b)"
| "less_eq_npfloat NaN _ = False"
| "less_eq_npfloat _ NaN = False"
| "less_eq_npfloat NInf _ = True"
| "less_eq_npfloat _ PInf = True"
| "less_eq_npfloat _ _ = False"

instance ..

end

text \<open>\<open>np.ceil\<close>, \<open>np.minimum\<close> and \<open>np.clip\<close>; all three hand \<open>NaN\<close> on.\<close>

fun np_ceil :: "npfloat \<Rightarrow> npfloat" where
  "np_ceil (Fin a) = Fin (of_int \<lceil>a\<rceil>)"
| "np_ceil x = x"

definition np_minimum :: "npfloat \<Rightarrow> npfloat \<Rightarrow> npfloat" where
  "np_minimum x y = (if x = NaN \<or> y = NaN then NaN else if y < x then y else x)"

definition np_maximum :: "npfloat \<Rightarrow> npfloat \<Rightarrow> npfloat" where
  "np_maximum x y = (if x = NaN \<or> y = NaN then NaN else if x < y then y else x)"

definition np_clip :: "npfloat \<Rightarrow> real \<Rightarrow> real \<Rightarrow> npfloat" where
  "np_clip x lo hi = np_minimum (np_maximum x (Fin lo)) (Fin hi)"

text \<open>Python's \<open>int(x)\<close> on a finite float truncates towards zero.\<close>

definition py_int :: "real \<Rightarrow> int" where
  "py_int x = (if 0 \<le> x then \<lfloor>x\<rfloor> else \<lceil>x\<rceil>)"

section \<open>Parameters (config.py)\<close>

definition PLANNING_HORIZON :: nat where "PLANNING_HORIZON = 15"
definition POP_GROWTH :: real where "POP_GROWTH = 0.027"
definition WEALTH_GROWTH :: real where "WEALTH_GROWTH = 0.015"
definition DISCOUNT_RATE :: real where "DISCOUNT_RATE = 0.08"

definition TIER_KWH :: "int \<rightharpoonup> real" where
  "TIER_KWH = map_of [(1, 35), (2, 220), (3, 850), (4, 2200), (5, 3500)]"

definition TIER_LF :: "int \<rightharpoonup> real" where
  "TIER_LF = map_of [(1, 0.18), (2, 0.20), (3, 0.25), (4, 0.30), (5, 0.35)]"

text \<open>The entries of the dictionary \<open>LOADS\<close>, one constant for each key.\<close>

definition LOADS_health :: real where "LOADS_health = 4000"
definition LOADS_education :: real where "LOADS_education = 1500"
definition LOADS_sme :: real where "LOADS_sme = 600"
definition LOADS_freezer :: real where "LOADS_freezer = 2500"
definition LOADS_irrigation :: real where "LOADS_irrigation = 3500"
definition LOADS_mill :: real where "LOADS_mill = 4500"
definition LOADS_dryer :: real where "LOADS_dryer = 6000"

definition TARGET_UPTAKE_2040 :: real where "TARGET_UPTAKE_2040 = 0.85"

definition MV_COST_KM :: real where "MV_COST_KM = 14000"
definition LV_COST_KM :: real where "LV_COST_KM = 5500"
definition SUBSTATION_COST :: real where "SUBSTATION_COST = 500000"
definition TRANSFORMER_COST :: real where "TRANSFORMER_COST = 8000"
definition CONN_GRID :: real where "CONN_GRID = 150"
definition GRID_LOSS :: real where "GRID_LOSS = 0.18"
definition GRID_PRICE :: real where "GRID_PRICE = 0.10"

definition PV_COST :: real where "PV_COST = 700"
definition BATT_COST :: real where "BATT_COST = 300"
definition INV_COST :: real where "INV_COST = 180"
definition CONN_MG :: real where "CONN_MG = 100"
definition CF_SOLAR :: real where "CF_SOLAR = 0.18"

definition SHS_COST :: "int \<rightharpoonup> real" where
  "SHS_COST = map_of [(1, 80), (2, 250), (3, 600)]"

definition SHS_CAP :: "int \<rightharpoonup> real" where
  "SHS_CAP = map_of [(1, 35), (2, 150), (3, 350)]"

definition MAX_TIER_SHS :: int where "MAX_TIER_SHS = 3"

section \<open>Tables\<close>

text \<open>
  Both functions are vectorised: every cell they write depends on the cells of its own row
  only, and an exception aborts the call for the whole table. The model is the computation
  on one row. A settlement is a row of the input table; an optional column that the table
  does not have is \<open>None\<close>, a null cell of a column that it has is \<open>Some NaN\<close>. The
  population is a finite number, and \<open>geometry\<close> holds the latitude of the centroid.
\<close>

record settlement =
  population :: real
  num_buildings :: "npfloat option"
  mean_rwi :: "npfloat option"
  has_nightlight :: "npfloat option"
  dist_main_road_km :: "npfloat option"
  dist_nearest_hub_km :: "npfloat option"
  dist_lake_river_km :: "npfloat option"
  num_health_facilities :: "npfloat option"
  num_education_facilities :: "npfloat option"
  geometry :: "real option"
  dist_to_substations :: "npfloat option"
  distance_to_existing_transmission_lines :: "npfloat option"
  main_road_access :: "npfloat option"

text \<open>The row after \<open>run_demand_model\<close>: the input columns and the columns it adds.\<close>

record demand_row = settlement +
  is_urban :: bool
  hh_size :: real
  households :: int
  tier :: int
  kwh_hh :: npfloat
  lf :: npfloat
  dem_comm :: npfloat
  dem_res :: npfloat
  dem_agri :: npfloat
  dem_pub :: npfloat
  projected_demand :: npfloat
  projected_peak :: npfloat

datatype error = AttributeError | ZeroDivisionError | OverflowError

text \<open>
  \<open>gdf.get(name, default)\<close> is the column when the table has it and the default as it is
  otherwise: the scalar \<open>0\<close> stays a Python number, on which a pandas method such as
  \<open>fillna\<close> does not exist.
\<close>

datatype pyval = Series npfloat | Scalar real

definition get :: "npfloat option \<Rightarrow> pyval \<Rightarrow> pyval" where
  "get column dflt = (case column of Some x \<Rightarrow> Series x | None \<Rightarrow> dflt)"

fun fillna :: "pyval \<Rightarrow> real \<Rightarrow> error + npfloat" where
  "fillna (Series x) v = Inr (if x = NaN then Fin v else x)"
| "fillna (Scalar c) v = Inl AttributeError"

text \<open>A scalar in arithmetic or in a comparison with a column is broadcast to every row.\<close>

fun cell :: "pyval \<Rightarrow> npfloat" where
  "cell (Series x) = x"
| "cell (Scalar c) = Fin c"

text \<open>\<open>Series.map(dict)\<close>: a key that the dictionary does not have gives a null cell.\<close>

definition map_dict :: "(int \<rightharpoonup> real) \<Rightarrow> int \<Rightarrow> npfloat" where
  "map_dict d k = (case d k of Some v \<Rightarrow> Fin v | None \<Rightarrow> NaN)"

section \<open>Demand (demand.py)\<close>

text \<open>
  \<open>estimate_agri_loads\<close> is applied to each row after \<open>is_urban\<close> has been written, so
  the defaults of \<open>row.get("population", 0)\<close> and \<open>row.get("is_urban", False)\<close> are never
  taken; \<open>urban\<close> is the row's \<open>is_urban\<close> cell.
\<close>

definition estimate_agri_loads :: "'a settlement_scheme \<Rightarrow> bool \<Rightarrow> real" where
  "estimate_agri_loads row urban =
    (let pop = population row;
         demand = 0;
         demand = (if \<not> urban \<and> pop > 500
                   then demand + of_int (max 1 (py_int (pop / 1500))) * LOADS_mill
                   else demand);
         demand = (if cell (get (dist_lake_river_km row) (Scalar 99)) < Fin 3.0 \<and> pop > 300
                   then demand + of_int (max 1 (py_int (pop / 800))) * LOADS_irrigation
                   else demand);
         lat = (case geometry row of Some y \<Rightarrow> y | None \<Rightarrow> 0);
         demand = (if lat > 8.0 \<and> \<not> urban \<and> pop > 400
                   then demand + of_int (max 1 (py_int (pop / 2000))) * LOADS_dryer
                   else demand)
     in demand)"

definition growth :: real where
  "growth = (1 + ((1 + POP_GROWTH) * (1 + WEALTH_GROWTH) - 1)) ^ PLANNING_HORIZON"

text \<open>The steps of \<open>run_demand_model\<close>, each named after the column or variable it computes.\<close>

definition is_urban_of :: "'a settlement_scheme \<Rightarrow> bool" where
  "is_urban_of gdf \<longleftrightarrow>
     population gdf > 5000 \<or> Fin 500 < cell (get (num_buildings gdf) (Scalar 0))"

definition hh_size_of :: "'a settlement_scheme \<Rightarrow> real" where
  "hh_size_of gdf = (if is_urban_of gdf then 4.3 else 5.2)"

text \<open>
  \<open>np.ceil(...).clip(lower=1).astype(int)\<close>: the float count is an integer, and the cast
  to the 64-bit integer type gives the same integer as long as it is below \<open>2^63\<close>. The
  model is that integer, without the 64-bit range: it is the code's column, and its
  products with the integer constants of \<open>config.py\<close> (at most 850) are the code's, for
  every population up to \<open>2^53\<close>, which is far beyond any settlement. What the cast
  leaves for a count of \<open>2^63\<close> or more is not modelled; the statements about the
  household count below carry the bound.
\<close>

definition households_of :: "'a settlement_scheme \<Rightarrow> int" where
  "households_of gdf = max 1 \<lceil>population gdf / hh_size_of gdf\<rceil>"

definition tier_of :: "'a settlement_scheme \<Rightarrow> int" where
  "tier_of gdf =
    (let rwi = cell (get (mean_rwi gdf) (Scalar 0));
         tier = (if rwi < Fin (- 0.3) then 1 else if rwi < Fin 0.4 then 2 else 3);
         tier = (case has_nightlight gdf of
                   Some nl \<Rightarrow> if Fin 0 < nl \<and> tier < 2 then 2 else tier
                 | None \<Rightarrow> tier);
         tier = (case dist_main_road_km gdf of
                   Some d \<Rightarrow> if Fin 20 < d \<and> tier > 3 then 3 else tier
                 | None \<Rightarrow> tier)
     in tier)"

definition gravity_of :: "'a settlement_scheme \<Rightarrow> error + npfloat" where
  "gravity_of gdf =
    (case fillna (get (dist_nearest_hub_km gdf) (Series (Fin 30))) 30 of
       Inl e \<Rightarrow> Inl e
     | Inr dist_hub \<Rightarrow> Inr (np_clip (Fin 1 + Fin 20.0 / (dist_hub + Fin 1)) 1 2.5))"

definition dem_comm_of :: "'a settlement_scheme \<Rightarrow> error + npfloat" where
  "dem_comm_of gdf =
    (case gravity_of gdf of
       Inl e \<Rightarrow> Inl e
     | Inr gravity \<Rightarrow>
        (let base_sme = (if is_urban_of gdf then 50 else 100);
             sme = (cell (get (num_buildings gdf) (Series (Fin (of_int (households_of gdf)))))
                      / Fin base_sme) * gravity;
             dem_comm = np_ceil sme * Fin LOADS_sme
         in Inr (case dist_lake_river_km gdf of
                   Some d \<Rightarrow>
                     if d < Fin 3.0 \<and> population gdf > 200
                     then dem_comm
                            + np_ceil (Fin (of_int (households_of gdf)) / Fin 100) * Fin LOADS_freezer
                     else dem_comm
                 | None \<Rightarrow> dem_comm)))"

definition dem_pub_of :: "'a settlement_scheme \<Rightarrow> error + npfloat" where
  "dem_pub_of gdf =
    (case fillna (get (num_health_facilities gdf) (Scalar 0)) 0 of
       Inl e \<Rightarrow> Inl e
     | Inr health \<Rightarrow>
        (case fillna (get (num_education_facilities gdf) (Scalar 0)) 0 of
           Inl e \<Rightarrow> Inl e
         | Inr education \<Rightarrow> Inr (health * Fin LOADS_health + education * Fin LOADS_education)))"

definition run_demand_model :: "settlement \<Rightarrow> error + demand_row" where
  "run_demand_model gdf =
    (let urban = is_urban_of gdf;
         hh = households_of gdf;
         t = tier_of gdf;
         kwh = map_dict TIER_KWH t;
         load_factor = map_dict TIER_LF t
     in case dem_comm_of gdf of
          Inl e \<Rightarrow> Inl e
        | Inr comm \<Rightarrow>
           (let uptake = (if urban then 0.95 else TARGET_UPTAKE_2040);
                res = Fin (of_int hh) * kwh * Fin uptake;
                agri = Fin (estimate_agri_loads gdf urban)
            in case dem_pub_of gdf of
                 Inl e \<Rightarrow> Inl e
               | Inr pub \<Rightarrow>
                  (let total_yr0 = res + comm + agri + pub;
                       design_res = Fin (of_int hh) * kwh;
                       design_total = (design_res + comm + agri + pub) * Fin growth
                   in Inr (settlement.extend gdf
                        (demand_row.fields urban (hh_size_of gdf) hh t kwh load_factor
                           comm res agri pub
                           (total_yr0 * Fin growth)
                           ((design_total / Fin 8760) / load_factor))))))"

section \<open>Costs and selection (lcoe.py)\<close>

text \<open>
  \<open>crf\<close> works on Python numbers, where a division by zero raises, as does a zero base
  under a negative exponent.
\<close>

definition crf :: "real \<Rightarrow> int \<Rightarrow> error + real" where
  "crf r n =
    (if r = 0 then (if n = 0 then Inl ZeroDivisionError else Inr (1.0 / of_int n))
     else if 1 + r = 0 \<and> n < 0 then Inl ZeroDivisionError
     else if (1 + r) powi n - 1 = 0 then Inl ZeroDivisionError
     else Inr ((r * (1 + r) powi n) / ((1 + r) powi n - 1)))"

text \<open>The row after \<open>run_lcoe_model\<close>. A null \<open>optimal_tech\<close> cell is \<open>None\<close>.\<close>

record lcoe_row = demand_row +
  lcoe_grid :: npfloat
  lcoe_mg :: npfloat
  lcoe_shs :: npfloat
  min_lcoe :: npfloat
  optimal_tech :: "string option"
  investment :: npfloat

definition penalty_km :: real where
  "penalty_km = SUBSTATION_COST / MV_COST_KM"

definition dist_grid_of :: "'a settlement_scheme \<Rightarrow> error + npfloat" where
  "dist_grid_of gdf =
    (case fillna (get (dist_to_substations gdf) (Scalar 999)) 999 of
       Inl e \<Rightarrow> Inl e
     | Inr d_sub \<Rightarrow>
        (case fillna (get (distance_to_existing_transmission_lines gdf) (Scalar 999)) 999 of
           Inl e \<Rightarrow> Inl e
         | Inr d_lines \<Rightarrow> Inr (np_minimum d_sub (d_lines + Fin penalty_km))))"

definition peak_of :: "'a demand_row_scheme \<Rightarrow> npfloat" where
  "peak_of gdf = projected_peak gdf * Fin 0.6"

definition hh_of :: "'a demand_row_scheme \<Rightarrow> npfloat" where
  "hh_of gdf = Fin (of_int (households gdf))"

definition terrain_factor_of :: "'a settlement_scheme \<Rightarrow> real" where
  "terrain_factor_of gdf =
     (if cell (get (main_road_access gdf) (Scalar 1)) = Fin 0 then 1.3 else 1.0)"

definition capex_grid_of :: "'a demand_row_scheme \<Rightarrow> npfloat \<Rightarrow> npfloat" where
  "capex_grid_of gdf dist_grid =
     dist_grid * Fin MV_COST_KM * Fin (terrain_factor_of gdf)
     + hh_of gdf * Fin 0.05 * Fin LV_COST_KM
     + np_ceil (peak_of gdf / Fin 45) * Fin TRANSFORMER_COST
     + hh_of gdf * Fin CONN_GRID"

definition lcoe_grid_of :: "'a demand_row_scheme \<Rightarrow> npfloat \<Rightarrow> real \<Rightarrow> npfloat" where
  "lcoe_grid_of gdf capex_grid crf40 =
    (let ann_grid_cap = capex_grid * Fin crf40;
         ann_grid_om = capex_grid * Fin 0.02;
         ann_grid_energy = (projected_demand gdf / Fin (1 - GRID_LOSS)) * Fin GRID_PRICE
     in (ann_grid_cap + ann_grid_om + ann_grid_energy) / projected_demand gdf)"

definition daily_load_of :: "'a demand_row_scheme \<Rightarrow> npfloat" where
  "daily_load_of gdf = projected_demand gdf / Fin 365.0"

definition pv_kw_of :: "'a demand_row_scheme \<Rightarrow> npfloat" where
  "pv_kw_of gdf = (daily_load_of gdf / Fin (CF_SOLAR * 8760 * 0.85)) * Fin 1.2"

definition batt_kwh_of :: "'a demand_row_scheme \<Rightarrow> npfloat" where
  "batt_kwh_of gdf = daily_load_of gdf / Fin 0.8"

definition batt_pv_of :: "'a demand_row_scheme \<Rightarrow> npfloat" where
  "batt_pv_of gdf =
    (let batt_rep_cost = batt_kwh_of gdf * Fin BATT_COST
     in (batt_rep_cost / Fin ((1 + DISCOUNT_RATE) ^ 7))
        + (batt_rep_cost / Fin ((1 + DISCOUNT_RATE) ^ 14)))"

definition capex_mg_of :: "'a demand_row_scheme \<Rightarrow> npfloat" where
  "capex_mg_of gdf =
    (let lv_length_km = hh_of gdf * Fin 0.1;
         lv_cost_mg = lv_length_km * Fin LV_COST_KM
     in pv_kw_of gdf * Fin PV_COST
        + batt_kwh_of gdf * Fin BATT_COST
        + batt_pv_of gdf
        + peak_of gdf * Fin 1.25 * Fin INV_COST
        + hh_of gdf * Fin CONN_MG
        + lv_cost_mg)"

definition lcoe_mg_of :: "'a demand_row_scheme \<Rightarrow> real \<Rightarrow> npfloat" where
  "lcoe_mg_of gdf crf20 =
    (let ann_mg_cap = capex_mg_of gdf * Fin crf20;
         ann_mg_om = capex_mg_of gdf * Fin 0.03
     in (ann_mg_cap + ann_mg_om) / projected_demand gdf)"

definition capex_shs_of :: "'a demand_row_scheme \<Rightarrow> npfloat" where
  "capex_shs_of gdf = map_dict SHS_COST (tier gdf) * hh_of gdf"

definition energy_delivered_of :: "'a demand_row_scheme \<Rightarrow> npfloat" where
  "energy_delivered_of gdf =
    (let cap_limit = map_dict SHS_CAP (tier gdf)
     in np_minimum (projected_demand gdf / hh_of gdf) cap_limit * hh_of gdf)"

definition mask_invalid_of :: "'a demand_row_scheme \<Rightarrow> bool" where
  "mask_invalid_of gdf \<longleftrightarrow>
    (let has_productive = (Fin 0 < dem_comm gdf \<or> Fin 0 < dem_agri gdf \<or> Fin 0 < dem_pub gdf)
     in tier gdf > MAX_TIER_SHS \<or> has_productive)"

definition lcoe_shs_of :: "'a demand_row_scheme \<Rightarrow> real \<Rightarrow> npfloat" where
  "lcoe_shs_of gdf crf5 =
    (let ann_shs_cap = capex_shs_of gdf * Fin crf5;
         ann_shs_om = capex_shs_of gdf * Fin 0.05;
         lcoe_shs = (ann_shs_cap + ann_shs_om) / energy_delivered_of gdf
     in if mask_invalid_of gdf then Fin 999.9 else lcoe_shs)"

text \<open>
  \<open>idxmin(axis=1)\<close> and \<open>min(axis=1)\<close> skip null cells the pandas way: the nulls are
  filled with \<open>+inf\<close>, the first position of the least filled value is taken, and the
  result is null for a row of nulls only (pandas 1 and 2 return the null with a warning
  that a later version will raise instead; no row with a number in it is affected).
\<close>

definition fill_pinf :: "npfloat \<Rightarrow> npfloat" where
  "fill_pinf x = (if x = NaN then PInf else x)"

fun first_min :: "'a \<times> npfloat \<Rightarrow> ('a \<times> npfloat) list \<Rightarrow> 'a \<times> npfloat" where
  "first_min best [] = best"
| "first_min best (cv # rest) = first_min (if snd cv < snd best then cv else best) rest"

definition argmin_filled :: "('a \<times> npfloat) list \<Rightarrow> ('a \<times> npfloat) option" where
  "argmin_filled row =
    (case map (\<lambda>(c, v). (c, fill_pinf v)) row of
       [] \<Rightarrow> None
     | cv # rest \<Rightarrow> if list_all (\<lambda>(c, v). v = NaN) row then None else Some (first_min cv rest))"

definition idxmin :: "('a \<times> npfloat) list \<Rightarrow> 'a option" where
  "idxmin row = map_option fst (argmin_filled row)"

definition row_min :: "('a \<times> npfloat) list \<Rightarrow> npfloat" where
  "row_min row = (case argmin_filled row of Some (c, v) \<Rightarrow> v | None \<Rightarrow> NaN)"

definition tech_labels :: "string \<rightharpoonup> string" where
  "tech_labels = map_of [(''lcoe_grid'', ''Grid''), (''lcoe_mg'', ''MiniGrid''), (''lcoe_shs'', ''SHS'')]"

definition run_lcoe_model :: "demand_row \<Rightarrow> error + lcoe_row" where
  "run_lcoe_model gdf =
    (case dist_grid_of gdf of
       Inl e \<Rightarrow> Inl e
     | Inr dist_grid \<Rightarrow>
    (case crf DISCOUNT_RATE 40 of
       Inl e \<Rightarrow> Inl e
     | Inr crf40 \<Rightarrow>
    (case crf DISCOUNT_RATE 20 of
       Inl e \<Rightarrow> Inl e
     | Inr crf20 \<Rightarrow>
    (case crf DISCOUNT_RATE 5 of
       Inl e \<Rightarrow> Inl e
     | Inr crf5 \<Rightarrow>
        (let capex_grid = capex_grid_of gdf dist_grid;
             capex_mg = capex_mg_of gdf;
             capex_shs = capex_shs_of gdf;
             grid = lcoe_grid_of gdf capex_grid crf40;
             mg = lcoe_mg_of gdf crf20;
             shs = lcoe_shs_of gdf crf5;
             cols = [(''lcoe_grid'', grid), (''lcoe_mg'', mg), (''lcoe_shs'', shs)];
             winner_col = idxmin cols;
             opt = Option.bind winner_col tech_labels
         in Inr (demand_row.extend gdf
              (lcoe_row.fields grid mg shs (row_min cols) opt
                 (if opt = Some ''Grid'' then capex_grid
                  else if opt = Some ''MiniGrid'' then capex_mg
                  else capex_shs))))))))"

text \<open>The script runs the two functions one after the other.\<close>

definition main :: "settlement \<Rightarrow> error + lcoe_row" where
  "main gdf = (case run_demand_model gdf of Inl e \<Rightarrow> Inl e | Inr gdf' \<Rightarrow> run_lcoe_model gdf')"

text \<open>The value of \<open>crf(DISCOUNT_RATE, n)\<close> on the three lifetimes in use (40, 20 and 5).\<close>

definition crf_at :: "nat \<Rightarrow> real" where
  "crf_at n = DISCOUNT_RATE * (1 + DISCOUNT_RATE) ^ n / ((1 + DISCOUNT_RATE) ^ n - 1)"

section \<open>Example settlements\<close>

text \<open>
  A complete row: a rural village of 1000 people, poor, unlit, 25 km from a main road,
  away from water, south of the cashew belt, 50 km from a substation and 10 km from a
  transmission line.
\<close>

definition village :: settlement where
  "village = \<lparr>population = 1000, num_buildings = Some (Fin 120),
     mean_rwi = Some (Fin (- 0.5)), has_nightlight = Some (Fin 0),
     dist_main_road_km = Some (Fin 25), dist_nearest_hub_km = Some (Fin 30),
     dist_lake_river_km = Some (Fin 10), num_health_facilities = Some (Fin 1),
     num_education_facilities = Some (Fin 1), geometry = Some 7,
     dist_to_substations = Some (Fin 50),
     distance_to_existing_transmission_lines = Some (Fin 10),
     main_road_access = Some (Fin 1)\<rparr>"

text \<open>
  The village's table with a null \<open>num_buildings\<close> cell, and a hamlet of 100 people with a
  null \<open>num_buildings\<close> cell and no facility.
\<close>

definition outpost :: settlement where
  "outpost = village\<lparr>num_buildings := Some NaN\<rparr>"

definition hamlet :: settlement where
  "hamlet = village\<lparr>population := 100, num_buildings := Some NaN,
     num_health_facilities := Some (Fin 0), num_education_facilities := Some (Fin 0)\<rparr>"

text \<open>
  Two tables for \<open>run_lcoe_model\<close> alone, each of one row with the village's input columns,
  one household and tier 1: a row without any demand, and a row with one SME unit of
  commercial demand whose projected demand is 0.01 kWh.
\<close>

definition idle_row :: demand_row where
  "idle_row = settlement.extend village
     (demand_row.fields False 5.2 1 1 (Fin 35) (Fin 0.18)
        (Fin 0) (Fin 0) (Fin 0) (Fin 0) (Fin 0) (Fin 0))"

definition kiosk_row :: demand_row where
  "kiosk_row = settlement.extend village
     (demand_row.fields False 5.2 1 1 (Fin 35) (Fin 0.18)
        (Fin 600) (Fin 0) (Fin 0) (Fin 0) (Fin 0.01) (Fin 0))"

text \<open>
  The village's row as \<open>run_demand_model\<close> returns it, and a row for \<open>run_lcoe_model\<close>
  alone with a design peak of 1 kW and no demand.
\<close>

definition village_row :: demand_row where
  "village_row = projr (run_demand_model village)"

definition peak_row :: demand_row where
  "peak_row = idle_row\<lparr>projected_peak := Fin 1\<rparr>"

text \<open>
  The mini-grid capital cost in the words of claim C2, which takes the inverter term on
  the design peak \<open>projected_peak\<close> itself; \<open>capex_mg_of\<close> above is the code's.
\<close>

definition capex_mg_as_claimed :: "'a demand_row_scheme \<Rightarrow> npfloat" where
  "capex_mg_as_claimed gdf =
     pv_kw_of gdf * Fin PV_COST
     + batt_kwh_of gdf * Fin BATT_COST
     + batt_pv_of gdf
     + projected_peak gdf * Fin 1.25 * Fin INV_COST
     + hh_of gdf * Fin CONN_MG
     + hh_of gdf * Fin 0.1 * Fin LV_COST_KM"

text \<open>
  How the selection reads a null LCOE, in the words of claim C4 as amended: a null cell
  counts as \<open>+inf\<close>, so that it is never below a number. (\<open>fill_pinf\<close> above is the
  step of pandas that the code runs.)
\<close>

definition null_as_inf :: "npfloat \<Rightarrow> npfloat" where
  "null_as_inf x = (case x of NaN \<Rightarrow> PInf | Fin a \<Rightarrow> Fin a | PInf \<Rightarrow> PInf | NInf \<Rightarrow> NInf)"

section \<open>Arithmetic on null cells\<close>

lemma NaN_absorbs [simp]:
  "x + NaN = NaN" "NaN + x = NaN" "x * NaN = NaN" "NaN * x = NaN"
  "x / NaN = NaN" "NaN / x = NaN"
  "\<not> x < NaN" "\<not> NaN < x" "\<not> x \<le> NaN" "\<not> NaN \<le> x"
  "np_minimum x NaN = NaN" "np_minimum NaN x = NaN" "np_ceil NaN = NaN"
  by (cases x; simp add: np_minimum_def)+

section \<open>When the functions return\<close>

lemma dem_comm_of_no_error: "dem_comm_of s \<noteq> Inl e"
  by (simp add: dem_comm_of_def gravity_of_def get_def Let_def split: sum.splits option.splits)

lemma run_demand_model_absent:
  assumes "num_health_facilities s = None \<or> num_education_facilities s = None"
  shows "run_demand_model s = Inl AttributeError"
proof (cases "dem_comm_of s")
  case (Inl e)
  then show ?thesis by (simp add: dem_comm_of_no_error)
next
  case (Inr comm)
  have "dem_pub_of s = Inl AttributeError"
    using assms by (auto simp add: dem_pub_of_def get_def split: option.splits sum.splits)
  with Inr show ?thesis by (simp add: run_demand_model_def Let_def)
qed

lemma crf_rate:
  assumes "0 < r" "0 < n"
  shows "crf r (int n) = Inr (r * (1 + r) ^ n / ((1 + r) ^ n - 1))"
proof -
  have "1 < (1 + r) ^ n" using assms by (intro one_less_power) simp_all
  then have "(1 + r) ^ n \<noteq> 1" by simp
  then show ?thesis using assms by (simp add: crf_def)
qed

lemma crf_discount:
  "crf DISCOUNT_RATE 40 = Inr (crf_at 40)"
  "crf DISCOUNT_RATE 20 = Inr (crf_at 20)"
  "crf DISCOUNT_RATE 5 = Inr (crf_at 5)"
  using crf_rate [of DISCOUNT_RATE 40] crf_rate [of DISCOUNT_RATE 20] crf_rate [of DISCOUNT_RATE 5]
  by (simp_all add: DISCOUNT_RATE_def crf_at_def)

lemma crf_at_pos: "0 < n \<Longrightarrow> 0 < crf_at n"
proof -
  assume "0 < n"
  then have "1 < (1 + DISCOUNT_RATE) ^ n"
    by (intro one_less_power) (simp_all add: DISCOUNT_RATE_def)
  then show ?thesis by (simp add: crf_at_def DISCOUNT_RATE_def)
qed

lemma run_lcoe_model_absent:
  assumes "dist_to_substations r = None \<or> distance_to_existing_transmission_lines r = None"
  shows "run_lcoe_model r = Inl AttributeError"
  using assms
  by (auto simp add: run_lcoe_model_def dist_grid_of_def get_def split: option.splits sum.splits)

lemma run_lcoe_model_returns:
  "(\<exists>out. run_lcoe_model r = Inr out) \<longleftrightarrow>
     dist_to_substations r \<noteq> None \<and> distance_to_existing_transmission_lines r \<noteq> None"
  by (auto simp add: run_lcoe_model_def Let_def dist_grid_of_def get_def crf_discount
      split: sum.splits option.splits)

lemma run_demand_model_returns:
  "(\<exists>r. run_demand_model s = Inr r) \<longleftrightarrow>
     num_health_facilities s \<noteq> None \<and> num_education_facilities s \<noteq> None"
  apply (cases "dem_comm_of s")
  apply (simp add: dem_comm_of_no_error)
  apply (auto simp add: run_demand_model_def Let_def dem_pub_of_def get_def
      split: sum.splits option.splits)
  done

lemma run_demand_model_columns:
  assumes "run_demand_model s = Inr r"
  shows "population r = population s" "num_buildings r = num_buildings s"
    "dist_to_substations r = dist_to_substations s"
    "distance_to_existing_transmission_lines r = distance_to_existing_transmission_lines s"
    "main_road_access r = main_road_access s"
  using assms
  by (auto simp add: run_demand_model_def Let_def settlement.defs demand_row.defs split: sum.splits)

lemma run_demand_model_fields:
  assumes "run_demand_model s = Inr r"
  shows "is_urban r = is_urban_of s" "households r = households_of s" "tier r = tier_of s"
    "hh_size r = hh_size_of s"
    "kwh_hh r = map_dict TIER_KWH (tier_of s)" "lf r = map_dict TIER_LF (tier_of s)"
    "dem_comm_of s = Inr (dem_comm r)"
    "dem_agri r = Fin (estimate_agri_loads s (is_urban_of s))"
    "dem_pub_of s = Inr (dem_pub r)"
  using assms
  by (auto simp add: run_demand_model_def Let_def settlement.defs demand_row.defs split: sum.splits)

lemma run_lcoe_model_eq:
  assumes "dist_grid_of r = Inr dist_grid"
  shows "run_lcoe_model r =
    (let capex_grid = capex_grid_of r dist_grid;
         grid = lcoe_grid_of r capex_grid (crf_at 40);
         mg = lcoe_mg_of r (crf_at 20);
         shs = lcoe_shs_of r (crf_at 5);
         cols = [(''lcoe_grid'', grid), (''lcoe_mg'', mg), (''lcoe_shs'', shs)];
         opt = Option.bind (idxmin cols) tech_labels
     in Inr (demand_row.extend r
          (lcoe_row.fields grid mg shs (row_min cols) opt
             (if opt = Some ''Grid'' then capex_grid
              else if opt = Some ''MiniGrid'' then capex_mg_of r
              else capex_shs_of r))))"
  unfolding run_lcoe_model_def assms crf_discount by (simp add: Let_def)

lemma run_lcoe_model_fields:
  assumes "run_lcoe_model r = Inr out"
  shows "\<exists>dist_grid. dist_grid_of r = Inr dist_grid
    \<and> lcoe_grid out = lcoe_grid_of r (capex_grid_of r dist_grid) (crf_at 40)
    \<and> investment out =
       (if optimal_tech out = Some ''Grid'' then capex_grid_of r dist_grid
        else if optimal_tech out = Some ''MiniGrid'' then capex_mg_of r
        else capex_shs_of r)"
    and "lcoe_mg out = lcoe_mg_of r (crf_at 20)"
    and "lcoe_shs out = lcoe_shs_of r (crf_at 5)"
    and "min_lcoe out = row_min [(''lcoe_grid'', lcoe_grid out), (''lcoe_mg'', lcoe_mg out),
        (''lcoe_shs'', lcoe_shs out)]"
    and "optimal_tech out = Option.bind (idxmin [(''lcoe_grid'', lcoe_grid out),
        (''lcoe_mg'', lcoe_mg out), (''lcoe_shs'', lcoe_shs out)]) tech_labels"
proof -
  obtain dist_grid where d: "dist_grid_of r = Inr dist_grid"
    using assms by (cases "dist_grid_of r") (simp_all add: run_lcoe_model_def)
  note e = assms [unfolded run_lcoe_model_eq [OF d] Let_def]
  show "\<exists>dist_grid. dist_grid_of r = Inr dist_grid
    \<and> lcoe_grid out = lcoe_grid_of r (capex_grid_of r dist_grid) (crf_at 40)
    \<and> investment out =
       (if optimal_tech out = Some ''Grid'' then capex_grid_of r dist_grid
        else if optimal_tech out = Some ''MiniGrid'' then capex_mg_of r
        else capex_shs_of r)"
    using d e by (auto simp add: demand_row.defs lcoe_row.defs)
  show "lcoe_mg out = lcoe_mg_of r (crf_at 20)"
    using e by (auto simp add: demand_row.defs lcoe_row.defs)
  show "lcoe_shs out = lcoe_shs_of r (crf_at 5)"
    using e by (auto simp add: demand_row.defs lcoe_row.defs)
  show "min_lcoe out = row_min [(''lcoe_grid'', lcoe_grid out), (''lcoe_mg'', lcoe_mg out),
        (''lcoe_shs'', lcoe_shs out)]"
    using e by (auto simp add: demand_row.defs lcoe_row.defs)
  show "optimal_tech out = Option.bind (idxmin [(''lcoe_grid'', lcoe_grid out),
        (''lcoe_mg'', lcoe_mg out), (''lcoe_shs'', lcoe_shs out)]) tech_labels"
    using e by (auto simp add: demand_row.defs lcoe_row.defs)
qed


lemma run_lcoe_model_keeps:
  assumes "run_lcoe_model r = Inr out"
  shows "households out = households r" "tier out = tier r"
    "dem_comm out = dem_comm r" "dem_agri out = dem_agri r" "dem_pub out = dem_pub r"
    "projected_demand out = projected_demand r" "population out = population r"
proof -
  obtain dist_grid where d: "dist_grid_of r = Inr dist_grid"
    using assms by (cases "dist_grid_of r") (simp_all add: run_lcoe_model_def)
  note e = assms [unfolded run_lcoe_model_eq [OF d] Let_def]
  show "households out = households r" "tier out = tier r"
    "dem_comm out = dem_comm r" "dem_agri out = dem_agri r" "dem_pub out = dem_pub r"
    "projected_demand out = projected_demand r" "population out = population r"
    using e by (auto simp add: demand_row.defs lcoe_row.defs)
qed

lemma village_returns:
  "\<exists>r out. run_demand_model village = Inr r \<and> run_lcoe_model r = Inr out"
proof -
  obtain r where r: "run_demand_model village = Inr r"
    using run_demand_model_returns [of village] by (auto simp add: village_def)
  then obtain out where "run_lcoe_model r = Inr out"
    using run_lcoe_model_returns [of r] run_demand_model_columns(3,4) [OF r]
    by (auto simp add: village_def)
  with r show ?thesis by blast
qed

section \<open>Missing columns\<close>

text \<open>
  Claim C1 says that a table without one of the columns \<open>num_health_facilities\<close>,
  \<open>num_education_facilities\<close>, \<open>dist_to_substations\<close> or
  \<open>distance_to_existing_transmission_lines\<close> is processed with the documented default.
  The code does not do that: \<open>gdf.get\<close> returns the scalar default, and the call of
  \<open>fillna\<close> on it raises \<open>AttributeError\<close>. The village's table without any one of the
  four columns makes the pipeline raise, while the complete table is processed.
\<close>

theorem missing_column_raises:
  "run_demand_model (village\<lparr>num_health_facilities := None\<rparr>) = Inl AttributeError
   \<and> run_demand_model (village\<lparr>num_education_facilities := None\<rparr>) = Inl AttributeError
   \<and> main (village\<lparr>dist_to_substations := None\<rparr>) = Inl AttributeError
   \<and> main (village\<lparr>distance_to_existing_transmission_lines := None\<rparr>) = Inl AttributeError
   \<and> \<not> isl (main village)"
proof -
  have ok: "\<And>s. num_health_facilities s \<noteq> None \<Longrightarrow> num_education_facilities s \<noteq> None \<Longrightarrow>
      dist_to_substations s \<noteq> None \<and> distance_to_existing_transmission_lines s \<noteq> None
      \<Longrightarrow> \<not> isl (main s)"
  proof -
    fix s :: settlement
    assume a: "num_health_facilities s \<noteq> None" "num_education_facilities s \<noteq> None"
       "dist_to_substations s \<noteq> None \<and> distance_to_existing_transmission_lines s \<noteq> None"
    then obtain r where r: "run_demand_model s = Inr r" using run_demand_model_returns by blast
    then obtain out where "run_lcoe_model r = Inr out"
      using a(3) run_lcoe_model_returns [of r] run_demand_model_columns [OF r] by auto
    with r show "\<not> isl (main s)" by (simp add: main_def)
  qed
  have bad: "\<And>s. num_health_facilities s \<noteq> None \<Longrightarrow> num_education_facilities s \<noteq> None \<Longrightarrow>
      dist_to_substations s = None \<or> distance_to_existing_transmission_lines s = None
      \<Longrightarrow> main s = Inl AttributeError"
  proof -
    fix s :: settlement
    assume a: "num_health_facilities s \<noteq> None" "num_education_facilities s \<noteq> None"
       "dist_to_substations s = None \<or> distance_to_existing_transmission_lines s = None"
    then obtain r where r: "run_demand_model s = Inr r" using run_demand_model_returns by blast
    then have "run_lcoe_model r = Inl AttributeError"
      using a(3) run_lcoe_model_absent [of r] run_demand_model_columns [OF r] by auto
    with r show "main s = Inl AttributeError" by (simp add: main_def)
  qed
  show ?thesis
    by (simp add: run_demand_model_absent ok bad village_def)
qed


section \<open>Tiers\<close>

lemma fillna_Series_not_NaN: "fillna (Series x) v = Inr y \<Longrightarrow> y \<noteq> NaN"
  by (auto split: if_splits)

lemma tier_of_range: "tier_of s \<in> {1, 2, 3}"
  by (simp add: tier_of_def Let_def split: option.splits)

lemma tier_of_mono:
  assumes "w \<le> w'"
  shows "tier_of (s\<lparr>mean_rwi := Some w\<rparr>) \<le> tier_of (s\<lparr>mean_rwi := Some w'\<rparr>)"
proof -
  have a: "w' < Fin c \<Longrightarrow> w < Fin c" for c
    using assms by (cases w; cases w') auto
  show ?thesis
    using a [of "- 0.3"] a [of "0.4"]
    by (auto simp add: tier_of_def Let_def get_def split: option.splits)
qed

lemma tier_of_nightlight:
  "tier_of (s\<lparr>has_nightlight := None\<rparr>) \<le> tier_of s"
  "tier_of (s\<lparr>has_nightlight := None\<rparr>) \<noteq> tier_of s \<Longrightarrow>
     tier_of (s\<lparr>has_nightlight := None\<rparr>) = 1 \<and> tier_of s = 2
     \<and> (\<exists>nl. has_nightlight s = Some nl \<and> Fin 0 < nl)"
  by (auto simp add: tier_of_def Let_def get_def split: option.splits if_splits)

lemma tier_of_road: "tier_of (s\<lparr>dist_main_road_km := d\<rparr>) = tier_of s"
  by (auto simp add: tier_of_def Let_def get_def split: option.splits if_splits)

text \<open>
  Claim C6. For every settlement that \<open>run_demand_model\<close> processes, the tier is 1, 2 or 3.
  With all other attributes fixed, a larger wealth proxy never gives a smaller tier. Against
  the same table without the nightlight column, the tier is never lower, and where it
  differs it went from 1 to 2 on a positive nightlight cell. The road distance, whatever
  it is and whether the column is there or not, changes no tier: no tier is above 3, so
  the cap of remote settlements finds nothing to lower, and it raises nothing.
\<close>

theorem tier_properties:
  assumes "run_demand_model s = Inr r"
  shows "tier r \<in> {1, 2, 3}
    \<and> (\<forall>w w' r'. mean_rwi s = Some w \<and> w \<le> w'
          \<and> run_demand_model (s\<lparr>mean_rwi := Some w'\<rparr>) = Inr r' \<longrightarrow> tier r \<le> tier r')
    \<and> (\<forall>r0. run_demand_model (s\<lparr>has_nightlight := None\<rparr>) = Inr r0 \<longrightarrow>
          tier r0 \<le> tier r
          \<and> (tier r0 \<noteq> tier r \<longrightarrow>
               tier r0 = 1 \<and> tier r = 2 \<and> (\<exists>nl. has_nightlight s = Some nl \<and> Fin 0 < nl)))
    \<and> (\<forall>d r'. run_demand_model (s\<lparr>dist_main_road_km := d\<rparr>) = Inr r' \<longrightarrow> tier r' = tier r)"
proof -
  note t = run_demand_model_fields(3)
  have range: "tier r \<in> {1, 2, 3}"
    using tier_of_range [where s = s] t [OF assms] by simp
  have mono: "tier r \<le> tier r'"
    if a: "mean_rwi s = Some w \<and> w \<le> w'
        \<and> run_demand_model (s\<lparr>mean_rwi := Some w'\<rparr>) = Inr r'" for w w' r'
  proof -
    from a have e: "s\<lparr>mean_rwi := Some w\<rparr> = s" by simp
    have "tier_of (s\<lparr>mean_rwi := Some w\<rparr>) \<le> tier_of (s\<lparr>mean_rwi := Some w'\<rparr>)"
      using a by (intro tier_of_mono) simp
    then have "tier_of s \<le> tier_of (s\<lparr>mean_rwi := Some w'\<rparr>)"
      unfolding e .
    then show ?thesis
      using a t [OF assms] t [where s = "s\<lparr>mean_rwi := Some w'\<rparr>" and r = r'] by simp
  qed
  have light: "tier r0 \<le> tier r
      \<and> (tier r0 \<noteq> tier r \<longrightarrow>
           tier r0 = 1 \<and> tier r = 2 \<and> (\<exists>nl. has_nightlight s = Some nl \<and> Fin 0 < nl))"
    if a: "run_demand_model (s\<lparr>has_nightlight := None\<rparr>) = Inr r0" for r0
    using tier_of_nightlight [where s = s] t [OF assms] t [OF a] by simp
  have road: "tier r' = tier r"
    if a: "run_demand_model (s\<lparr>dist_main_road_km := d\<rparr>) = Inr r'" for d r'
    using tier_of_road [where s = s and d = d] t [OF assms] t [OF a] by simp
  show ?thesis
    using range mono light road by blast
qed

theorem tier_properties_witness:
  "\<exists>r r'. run_demand_model village = Inr r
     \<and> run_demand_model (village\<lparr>mean_rwi := Some (Fin 0.5)\<rparr>) = Inr r'
     \<and> tier r \<in> {1, 2, 3} \<and> tier r \<le> tier r'"
proof -
  obtain r where r: "run_demand_model village = Inr r"
    using run_demand_model_returns [of village] by (auto simp add: village_def)
  obtain r' where r': "run_demand_model (village\<lparr>mean_rwi := Some (Fin 0.5)\<rparr>) = Inr r'"
    using run_demand_model_returns [of "village\<lparr>mean_rwi := Some (Fin 0.5)\<rparr>"]
    by (auto simp add: village_def)
  have "mean_rwi village = Some (Fin (- 0.5)) \<and> Fin (- 0.5) \<le> Fin 0.5"
    by (simp add: village_def)
  with tier_properties [OF r] r r' show ?thesis by blast
qed


section \<open>Effective grid distance\<close>

text \<open>
  Claim C8. For a table that has both distance columns, the effective grid distance of a
  settlement is the minimum of its substation distance and its line distance plus
  \<open>SUBSTATION_COST / MV_COST_KM\<close> km, a null cell counting as 999 km. For 50 km and
  10 km it is \<open>10 + 500000 / 14000\<close>, which is 45.7 to one decimal.
\<close>

theorem effective_grid_distance:
  assumes "dist_to_substations s = Some a"
    and "distance_to_existing_transmission_lines s = Some b"
  shows "dist_grid_of s =
       Inr (np_minimum (if a = NaN then Fin 999 else a)
              ((if b = NaN then Fin 999 else b) + Fin (SUBSTATION_COST / MV_COST_KM)))
    \<and> (\<forall>x y. a = Fin x \<and> b = Fin y \<longrightarrow>
          dist_grid_of s = Inr (Fin (min x (y + SUBSTATION_COST / MV_COST_KM))))
    \<and> (a = Fin 50 \<and> b = Fin 10 \<longrightarrow>
          dist_grid_of s = Inr (Fin (10 + 500000 / 14000))
          \<and> \<bar>(10 + 500000 / 14000) - 45.7\<bar> < (0.05 :: real))"
  using assms
  by (auto simp add: dist_grid_of_def get_def penalty_km_def np_minimum_def
      SUBSTATION_COST_def MV_COST_KM_def)


theorem effective_grid_distance_witness:
  "dist_grid_of village = Inr (Fin (10 + 500000 / 14000))"
proof -
  have a: "dist_to_substations village = Some (Fin 50)"
    and b: "distance_to_existing_transmission_lines village = Some (Fin 10)"
    by (simp_all add: village_def)
  from effective_grid_distance [OF a b] show ?thesis by blast
qed


section \<open>The rural village scenario\<close>

text \<open>
  Claim C9. For a rural settlement of 1000 people whose centroid is at latitude 8 or below
  and that has no lake or river within 3 km, the agricultural demand is that of one grain
  mill, \<open>max(1, int(1000 / 1500)) * 4500 = 4500\<close> kWh a year, with nothing for pumps or
  dryers. If its wealth proxy is \<open>-0.5\<close>, it has no nightlight and it is 25 km from a
  main road, its tier is 1.
\<close>

theorem scenario_rural_village:
  assumes "run_demand_model s = Inr r"
    and "population s = 1000" and "\<not> is_urban r"
    and "\<forall>y. geometry s = Some y \<longrightarrow> y \<le> 8"
    and "\<forall>d. dist_lake_river_km s = Some d \<longrightarrow> \<not> d < Fin 3"
  shows "dem_agri r = Fin (of_int (max 1 \<lfloor>(1000 :: real) / 1500\<rfloor>) * LOADS_mill)
    \<and> dem_agri r = Fin 4500
    \<and> (mean_rwi s = Some (Fin (- 0.5))
         \<and> (\<forall>nl. has_nightlight s = Some nl \<longrightarrow> \<not> Fin 0 < nl)
         \<and> dist_main_road_km s = Some (Fin 25) \<longrightarrow> tier r = 1)"
proof -
  have u: "\<not> is_urban_of s"
    using assms(3) run_demand_model_fields(1) [OF assms(1)] by simp
  have agri: "estimate_agri_loads s False = 4500"
    using assms(2,4,5)
    by (auto simp add: estimate_agri_loads_def Let_def get_def py_int_def LOADS_mill_def
        split: option.splits)
  have t: "tier_of s = 1"
    if "mean_rwi s = Some (Fin (- 0.5))"
       "\<forall>nl. has_nightlight s = Some nl \<longrightarrow> \<not> Fin 0 < nl"
       "dist_main_road_km s = Some (Fin 25)"
    using that by (auto simp add: tier_of_def Let_def get_def split: option.splits)
  show ?thesis
    using u agri t run_demand_model_fields(3,8) [OF assms(1)]
    by (simp add: LOADS_mill_def)
qed

theorem scenario_rural_village_witness:
  "\<exists>r. run_demand_model village = Inr r \<and> dem_agri r = Fin 4500 \<and> tier r = 1"
proof -
  obtain r where r: "run_demand_model village = Inr r"
    using village_returns by blast
  have u: "\<not> is_urban r"
    using run_demand_model_fields(1) [OF r] by (simp add: is_urban_of_def village_def get_def)
  have h: "population village = 1000"
    "\<forall>y. geometry village = Some y \<longrightarrow> y \<le> 8"
    "\<forall>d. dist_lake_river_km village = Some d \<longrightarrow> \<not> d < Fin 3"
    by (simp_all add: village_def)
  have t: "mean_rwi village = Some (Fin (- 0.5))
      \<and> (\<forall>nl. has_nightlight village = Some nl \<longrightarrow> \<not> Fin 0 < nl)
      \<and> dist_main_road_km village = Some (Fin 25)"
    by (simp add: village_def)
  from scenario_rural_village [OF r h(1) u h(2,3)] t r show ?thesis by blast
qed


section \<open>Commercial demand\<close>

lemma np_clip_bounds:
  assumes "y \<noteq> NaN" "lo \<le> hi"
  shows "\<exists>g. np_clip y lo hi = Fin g \<and> lo \<le> g \<and> g \<le> hi"
proof (cases y)
  case (Fin v)
  have "np_clip (Fin v) lo hi = Fin (min (max v lo) hi)"
    by (simp add: np_clip_def np_minimum_def np_maximum_def min_def max_def)
  then show ?thesis using Fin assms(2) by simp
next
  case PInf
  then show ?thesis using assms(2)
    by (simp add: np_clip_def np_minimum_def np_maximum_def)
next
  case NInf
  then show ?thesis using assms(2)
    by (simp add: np_clip_def np_minimum_def np_maximum_def)
next
  case NaN
  then show ?thesis using assms(1) by simp
qed

lemma gravity_of_bounds: "\<exists>g. gravity_of s = Inr (Fin g) \<and> 1 \<le> g \<and> g \<le> 2.5"
proof -
  obtain d where d: "fillna (get (dist_nearest_hub_km s) (Series (Fin 30))) 30 = Inr d"
    and n: "d \<noteq> NaN"
    by (cases "dist_nearest_hub_km s") (auto simp add: get_def)
  have "Fin 1 + Fin 20.0 / (d + Fin 1) \<noteq> NaN"
    using n by (cases d) auto
  then obtain g where "np_clip (Fin 1 + Fin 20.0 / (d + Fin 1)) 1 2.5 = Fin g" "1 \<le> g" "g \<le> 2.5"
    using np_clip_bounds [where y = "Fin 1 + Fin 20.0 / (d + Fin 1)" and lo = 1 and hi = "2.5"]
    by auto
  then show ?thesis using d by (simp add: gravity_of_def)
qed

lemma households_of_pos: "1 \<le> households_of s"
  by (simp add: households_of_def)






section \<open>Capital recovery factor\<close>








section \<open>Finite demand and finite costs\<close>

text \<open>
  With building and facility counts that are non-negative numbers (a null facility count
  is filled with 0) the projected demand and the design peak are positive numbers, and
  with distances that are numbers or null the three LCOE values are then numbers.
\<close>

lemma run_demand_model_totals:
  assumes "run_demand_model s = Inr r"
  shows "dem_res r = Fin (of_int (households r)) * kwh_hh r
           * Fin (if is_urban r then 0.95 else TARGET_UPTAKE_2040)"
    "projected_demand r = (dem_res r + dem_comm r + dem_agri r + dem_pub r) * Fin growth"
    "projected_peak r =
       ((Fin (of_int (households r)) * kwh_hh r + dem_comm r + dem_agri r + dem_pub r)
          * Fin growth / Fin 8760) / lf r"
  using assms
  by (auto simp add: run_demand_model_def Let_def settlement.defs demand_row.defs split: sum.splits)

lemma growth_pos: "0 < growth"
  unfolding growth_def by (intro zero_less_power) (simp add: POP_GROWTH_def WEALTH_GROWTH_def)

lemma estimate_agri_loads_nonneg: "0 \<le> estimate_agri_loads s u"
  by (simp add: estimate_agri_loads_def Let_def LOADS_mill_def LOADS_irrigation_def
      LOADS_dryer_def)

lemma tier_table_values:
  assumes "t \<in> {1, 2, 3}"
  shows "map_dict TIER_KWH t = Fin (if t = 1 then 35 else if t = 2 then 220 else 850)"
    and "map_dict TIER_LF t = Fin (if t = 1 then 0.18 else if t = 2 then 0.20 else 0.25)"
    and "map_dict SHS_COST t = Fin (if t = 1 then 80 else if t = 2 then 250 else 600)"
    and "map_dict SHS_CAP t = Fin (if t = 1 then 35 else if t = 2 then 150 else 350)"
  using assms
  by (auto simp add: map_dict_def TIER_KWH_def TIER_LF_def SHS_COST_def SHS_CAP_def)

lemma tier_tables:
  assumes "t \<in> {1, 2, 3}"
  shows "\<exists>k. map_dict TIER_KWH t = Fin k \<and> 35 \<le> k"
    and "\<exists>l. map_dict TIER_LF t = Fin l \<and> 0 < l"
    and "\<exists>c. map_dict SHS_COST t = Fin c \<and> 0 < c"
    and "\<exists>c. map_dict SHS_CAP t = Fin c \<and> 0 < c"
  unfolding tier_table_values [OF assms] by simp_all

lemma dem_comm_of_finite:
  assumes "num_buildings s = None \<or> (\<exists>b. num_buildings s = Some (Fin b) \<and> 0 \<le> b)"
  shows "\<exists>c. dem_comm_of s = Inr (Fin c) \<and> 0 \<le> c"
proof -
  obtain g where g: "gravity_of s = Inr (Fin g)" "1 \<le> g" "g \<le> 2.5"
    using gravity_of_bounds by blast
  define base :: real where "base = (if is_urban_of s then 50 else 100)"
  define extra :: real where "extra =
    (case dist_lake_river_km s of
       Some d \<Rightarrow> if d < Fin 3.0 \<and> population s > 200
                 then real_of_int \<lceil>real_of_int (households_of s) / 100\<rceil> * 2500 else 0
     | None \<Rightarrow> 0)"
  obtain b where b: "cell (get (num_buildings s) (Series (Fin (of_int (households_of s))))) = Fin b"
    and b1: "0 \<le> b"
    using assms households_of_pos [of s] by (auto simp add: get_def)
  have base: "0 < base" by (simp add: base_def)
  have eq: "dem_comm_of s = Inr (Fin (real_of_int \<lceil>b / base * g\<rceil> * 600 + extra))"
    unfolding dem_comm_of_def Let_def g(1) b base_def extra_def
    by (simp add: LOADS_sme_def LOADS_freezer_def split: option.splits)
  have "0 \<le> b / base * g" using b1 g(2) base by simp
  then have "0 \<le> \<lceil>b / base * g\<rceil>" by linarith
  then have sme: "0 \<le> real_of_int \<lceil>b / base * g\<rceil> * 600" by simp
  have "0 \<le> real_of_int \<lceil>real_of_int (households_of s) / 100\<rceil>"
    using households_of_pos [of s] by simp
  then have "0 \<le> extra"
    by (simp add: extra_def split: option.splits)
  with sme have "0 \<le> real_of_int \<lceil>b / base * g\<rceil> * 600 + extra"
    by linarith
  with eq show ?thesis by blast
qed

lemma dem_pub_of_finite:
  assumes "\<exists>h. num_health_facilities s = Some h \<and> (h = NaN \<or> (\<exists>x. h = Fin x \<and> 0 \<le> x))"
    and "\<exists>e. num_education_facilities s = Some e \<and> (e = NaN \<or> (\<exists>x. e = Fin x \<and> 0 \<le> x))"
  shows "\<exists>p. dem_pub_of s = Inr (Fin p) \<and> 0 \<le> p"
  using assms
  by (auto simp add: dem_pub_of_def get_def LOADS_health_def LOADS_education_def)

lemma run_demand_model_positive:
  assumes "run_demand_model s = Inr r"
    and "num_buildings s = None \<or> (\<exists>b. num_buildings s = Some (Fin b) \<and> 0 \<le> b)"
    and "\<exists>h. num_health_facilities s = Some h \<and> (h = NaN \<or> (\<exists>x. h = Fin x \<and> 0 \<le> x))"
    and "\<exists>e. num_education_facilities s = Some e \<and> (e = NaN \<or> (\<exists>x. e = Fin x \<and> 0 \<le> x))"
  shows "\<exists>d p. projected_demand r = Fin d \<and> 0 < d \<and> projected_peak r = Fin p \<and> 0 < p"
proof -
  note f = run_demand_model_fields [OF assms(1)]
  note t = run_demand_model_totals [OF assms(1)]
  obtain c where c: "dem_comm r = Fin c" "0 \<le> c"
    using dem_comm_of_finite [OF assms(2)] f(7) by auto
  obtain pb where pb: "dem_pub r = Fin pb" "0 \<le> pb"
    using dem_pub_of_finite [OF assms(3,4)] f(9) by auto
  obtain a where a: "dem_agri r = Fin a" "0 \<le> a"
    using f(8) estimate_agri_loads_nonneg by blast
  have tr: "tier_of s \<in> {1, 2, 3}" by (rule tier_of_range)
  obtain k where k: "kwh_hh r = Fin k" "35 \<le> k"
    using tier_tables(1) [OF tr] f(5) by auto
  obtain l where l: "lf r = Fin l" "0 < l"
    using tier_tables(2) [OF tr] f(6) by auto
  define u :: real where "u = (if is_urban r then 0.95 else TARGET_UPTAKE_2040)"
  have u: "0 < u" by (simp add: u_def TARGET_UPTAKE_2040_def)
  define h :: real where "h = of_int (households r)"
  have h: "1 \<le> h" using households_of_pos [of s] f(2) by (simp add: h_def)
  have hk: "0 < h * k" using h k(2) by simp
  then have hku: "0 < h * k * u" using u by simp
  have d: "projected_demand r = Fin ((h * k * u + c + a + pb) * growth)"
    unfolding t(2) t(1) c(1) a(1) pb(1) k(1) by (simp add: h_def u_def)
  have p: "projected_peak r = Fin ((h * k + c + a + pb) * growth / 8760 / l)"
    unfolding t(3) c(1) a(1) pb(1) k(1) l(1) using l(2) by (simp add: h_def)
  have "0 < (h * k * u + c + a + pb) * growth"
    using hku c(2) a(2) pb(2) growth_pos by (intro mult_pos_pos) linarith+
  moreover have "0 < (h * k + c + a + pb) * growth / 8760 / l"
    using hk c(2) a(2) pb(2) growth_pos l(2)
    by (intro divide_pos_pos mult_pos_pos) linarith+
  ultimately show ?thesis using d p by blast
qed


lemma energy_delivered_of_pos:
  assumes "projected_demand r = Fin d" "0 < d" "1 \<le> households r" "tier r \<in> {1, 2, 3}"
  shows "\<exists>e. energy_delivered_of r = Fin e \<and> 0 < e"
proof -
  obtain cap where cap: "map_dict SHS_CAP (tier r) = Fin cap" "0 < cap"
    using tier_tables(4) [OF assms(4)] by blast
  define h :: real where "h = of_int (households r)"
  have h: "0 < h" using assms(3) by (simp add: h_def)
  have "np_minimum (Fin d / Fin h) (Fin cap) = Fin (min (d / h) cap)"
    using h by (simp add: np_minimum_def min_def)
  then have e: "energy_delivered_of r = Fin (min (d / h) cap * h)"
    by (simp add: energy_delivered_of_def Let_def hh_of_def cap(1) assms(1) h_def)
  have "0 < min (d / h) cap * h"
    using h cap(2) assms(2) by (intro mult_pos_pos) simp_all
  with e show ?thesis by blast
qed

lemma lcoe_shs_of_finite:
  assumes "projected_demand r = Fin d" "0 < d" "1 \<le> households r" "tier r \<in> {1, 2, 3}"
  shows "\<exists>v. lcoe_shs_of r c = Fin v"
proof -
  obtain e where e: "energy_delivered_of r = Fin e" "0 < e"
    using energy_delivered_of_pos [OF assms] by blast
  obtain cost where cost: "map_dict SHS_COST (tier r) = Fin cost"
    using tier_tables(3) [OF assms(4)] by blast
  show ?thesis
  proof (cases "mask_invalid_of r")
    case True
    then have "lcoe_shs_of r c = Fin 999.9" by (simp add: lcoe_shs_of_def Let_def)
    then show ?thesis by blast
  next
    case False
    then show ?thesis
      using e by (simp add: lcoe_shs_of_def Let_def capex_shs_of_def hh_of_def cost)
  qed
qed








section \<open>Division by household count and by delivered energy\<close>

lemma capex_shs_of_pos:
  assumes "1 \<le> households r" "tier r \<in> {1, 2, 3}"
  shows "\<exists>c. capex_shs_of r = Fin c \<and> 0 < c"
proof -
  obtain cost where cost: "map_dict SHS_COST (tier r) = Fin cost" "0 < cost"
    using tier_tables(3) [OF assms(2)] by blast
  have "0 < cost * real_of_int (households r)"
    using cost(2) assms(1) by (intro mult_pos_pos) simp_all
  then show ?thesis by (simp add: capex_shs_of_def hh_of_def cost(1))
qed

lemma lcoe_shs_of_zero_demand:
  assumes "projected_demand r = Fin 0" "1 \<le> households r" "tier r \<in> {1, 2, 3}"
    and "\<not> mask_invalid_of r"
  shows "lcoe_shs_of r (crf_at 5) = PInf"
proof -
  obtain c where c: "capex_shs_of r = Fin c" "0 < c"
    using capex_shs_of_pos [OF assms(2,3)] by blast
  obtain cap where cap: "map_dict SHS_CAP (tier r) = Fin cap" "0 < cap"
    using tier_tables(4) [OF assms(3)] by blast
  have h: "0 < real_of_int (households r)" using assms(2) by simp
  have e: "energy_delivered_of r = Fin 0"
    using h cap(2)
    by (simp add: energy_delivered_of_def Let_def hh_of_def cap(1) assms(1) np_minimum_def)
  have "0 < c * crf_at 5 + c * 0.05"
    using c(2) crf_at_pos [of 5] by (intro add_pos_pos mult_pos_pos) simp_all
  then show ?thesis
    using assms(4) by (simp add: lcoe_shs_of_def Let_def c(1) e)
qed

lemma lcoe_shs_of_null_demand:
  assumes "projected_demand r = NaN" "\<not> mask_invalid_of r"
  shows "lcoe_shs_of r c = NaN"
  using assms by (simp add: lcoe_shs_of_def Let_def energy_delivered_of_def)

lemma idle_row_values:
  "households idle_row = 1" "tier idle_row = 1" "projected_demand idle_row = Fin 0"
  "projected_peak idle_row = Fin 0"
  "dem_comm idle_row = Fin 0" "dem_agri idle_row = Fin 0" "dem_pub idle_row = Fin 0"
  "dist_to_substations idle_row = Some (Fin 50)"
  "distance_to_existing_transmission_lines idle_row = Some (Fin 10)"
  "main_road_access idle_row = Some (Fin 1)"
  by (simp_all add: idle_row_def village_def settlement.defs demand_row.defs)

lemma idle_row_lcoe:
  "\<exists>out. run_lcoe_model idle_row = Inr out \<and> lcoe_shs out = PInf"
proof -
  obtain out where out: "run_lcoe_model idle_row = Inr out"
    using run_lcoe_model_returns [of idle_row] by (auto simp add: idle_row_values)
  have m: "\<not> mask_invalid_of idle_row"
    by (simp add: mask_invalid_of_def Let_def idle_row_values MAX_TIER_SHS_def)
  have "lcoe_shs_of idle_row (crf_at 5) = PInf"
    by (intro lcoe_shs_of_zero_demand m) (simp_all add: idle_row_values)
  then show ?thesis using out run_lcoe_model_fields(3) [OF out] by simp
qed

lemma null_buildings_dem_comm:
  assumes "num_buildings s = Some NaN" "dist_lake_river_km s = Some (Fin 10)"
  shows "dem_comm_of s = Inr NaN"
proof -
  obtain g where g: "gravity_of s = Inr (Fin g)"
    using gravity_of_bounds by blast
  show ?thesis
    unfolding dem_comm_of_def g Let_def by (simp add: assms get_def)
qed

lemma null_buildings_demand:
  assumes "run_demand_model s = Inr r"
    and "num_buildings s = Some NaN" "dist_lake_river_km s = Some (Fin 10)"
  shows "dem_comm r = NaN" "projected_demand r = NaN" "projected_peak r = NaN"
proof -
  show c: "dem_comm r = NaN"
    using null_buildings_dem_comm [OF assms(2,3)] run_demand_model_fields(7) [OF assms(1)]
    by simp
  show "projected_demand r = NaN" "projected_peak r = NaN"
    unfolding run_demand_model_totals [OF assms(1)] c by simp_all
qed

lemma hamlet_lcoe:
  "\<exists>r out. run_demand_model hamlet = Inr r \<and> run_lcoe_model r = Inr out
     \<and> lcoe_grid out = NaN \<and> lcoe_mg out = NaN \<and> lcoe_shs out = NaN
     \<and> optimal_tech out = None \<and> min_lcoe out = NaN \<and> investment out = Fin 1600"
proof -
  obtain r where r: "run_demand_model hamlet = Inr r"
    using run_demand_model_returns [of hamlet] by (auto simp add: hamlet_def village_def)
  obtain out where out: "run_lcoe_model r = Inr out"
    using run_lcoe_model_returns [of r] run_demand_model_columns(3,4) [OF r]
    by (auto simp add: hamlet_def village_def)
  note f = run_demand_model_fields [OF r]
  note n = null_buildings_demand [OF r]
  have d: "projected_demand r = NaN" and c: "dem_comm r = NaN"
    by (simp_all add: n hamlet_def village_def)
  have u: "\<not> is_urban_of hamlet"
    by (simp add: is_urban_of_def hamlet_def village_def get_def)
  have a: "dem_agri r = Fin 0"
    using f(8) u by (simp add: estimate_agri_loads_def Let_def get_def hamlet_def village_def)
  have p: "dem_pub r = Fin 0"
    using f(9) by (simp add: dem_pub_of_def get_def hamlet_def village_def)
  have t: "tier r = 1"
    using f(3) by (simp add: tier_of_def Let_def get_def hamlet_def village_def)
  have m: "\<not> mask_invalid_of r"
    by (simp add: mask_invalid_of_def Let_def c a p t MAX_TIER_SHS_def)
  note g = run_lcoe_model_fields [OF out]
  have shs: "lcoe_shs out = NaN"
    using g(3) lcoe_shs_of_null_demand [OF d m] by simp
  have mg: "lcoe_mg out = NaN"
    using g(2) by (simp add: lcoe_mg_of_def Let_def d)
  have grid: "lcoe_grid out = NaN"
    using g(1) by (auto simp add: lcoe_grid_of_def Let_def d)
  have opt: "optimal_tech out = None"
    unfolding g(5) shs mg grid by (simp add: idxmin_def argmin_filled_def)
  have mn: "min_lcoe out = NaN"
    unfolding g(4) shs mg grid by (simp add: row_min_def argmin_filled_def)
  have "households r = 20"
    using f(2) u
    by (simp add: households_of_def hh_size_of_def hamlet_def village_def)
  then have "capex_shs_of r = Fin 1600"
    by (simp add: capex_shs_of_def hh_of_def t map_dict_def SHS_COST_def)
  then have inv: "investment out = Fin 1600"
    using g(1) opt by auto
  from r out shs mg grid opt mn inv show ?thesis by blast
qed

text \<open>
  Claim C5 says that the divisions by the household count and by the delivered energy are
  guarded, so that \<open>lcoe_shs\<close> is never infinite or undefined. The first half holds: the
  household count is the population over the household size, rounded up and floored at 1.
  The second half does not: nothing in the code looks at the delivered energy before
  dividing by it. On a row without any demand the delivered energy is zero and
  \<open>lcoe_shs\<close> is \<open>+inf\<close>; for the hamlet, whose null building count makes the projected
  demand null, \<open>lcoe_shs\<close> is \<open>NaN\<close>. Neither row is masked.
\<close>

theorem unguarded_delivered_energy:
  "\<not> isl (run_lcoe_model idle_row)
   \<and> projected_demand idle_row = Fin 0
   \<and> lcoe_shs (projr (run_lcoe_model idle_row)) = PInf
   \<and> 0 \<le> population hamlet \<and> \<not> isl (main hamlet)
   \<and> lcoe_shs (projr (main hamlet)) = NaN"
proof -
  obtain out where out: "run_lcoe_model idle_row = Inr out" "lcoe_shs out = PInf"
    using idle_row_lcoe by blast
  obtain r out' where h: "run_demand_model hamlet = Inr r" "run_lcoe_model r = Inr out'"
    "lcoe_shs out' = NaN"
    using hamlet_lcoe by blast
  have "main hamlet = Inr out'" using h by (simp add: main_def)
  then show ?thesis
    using out h by (simp add: idle_row_values hamlet_def village_def)
qed


lemma households_of_le:
  assumes "population s \<le> 2 ^ 53"
  shows "households_of s \<le> 2 ^ 53"
proof -
  have h: "1 \<le> hh_size_of s" by (simp add: hh_size_of_def)
  have "population s / hh_size_of s \<le> 2 ^ 53"
  proof (cases "0 \<le> population s")
    case True
    then have "population s / hh_size_of s \<le> population s / 1"
      using h by (intro divide_left_mono) simp_all
    then show ?thesis using assms by simp
  next
    case False
    then have "population s / hh_size_of s \<le> 0"
      using h by (simp add: divide_le_0_iff)
    then show ?thesis by simp
  qed
  then have "\<lceil>population s / hh_size_of s\<rceil> \<le> 2 ^ 53"
    by (simp add: ceiling_le_iff)
  then show ?thesis by (simp add: households_of_def)
qed

text \<open>
  Claim C5 as amended. For a population of at most \<open>2^53\<close> the household count that
  \<open>run_demand_model\<close> writes is the population over the household size, rounded up and
  floored at 1, so it is at least 1; it is at most \<open>2^53\<close>, so that the cast to the 64-bit
  integer type keeps it and 850 times the count is still below \<open>2^63\<close>; the tier is 1, 2
  or 3, and the projected demand is a positive number when the building and facility
  counts are non-negative numbers. For a row with a household count from 1 to \<open>2^53\<close>
  and a tier from 1 to 3, \<open>lcoe_shs\<close> is 999.9 when the row is masked, and a finite
  number when the projected demand is a positive number. The delivered energy is not
  guarded: without the mask, a projected demand of zero gives \<open>+inf\<close> and a null
  projected demand gives \<open>NaN\<close>.
\<close>

theorem division_guards:
  "(run_demand_model s = Inr r' \<and> population s \<le> 2 ^ 53 \<longrightarrow>
      households r' = max 1 \<lceil>population s / hh_size r'\<rceil> \<and> 1 \<le> households r'
      \<and> households r' \<le> 2 ^ 53 \<and> 850 * households r' < 2 ^ 63
      \<and> tier r' \<in> {1, 2, 3}
      \<and> ((num_buildings s = None \<or> (\<exists>b. num_buildings s = Some (Fin b) \<and> 0 \<le> b))
           \<and> (\<exists>h. num_health_facilities s = Some h
                  \<and> (h = NaN \<or> (\<exists>x. h = Fin x \<and> 0 \<le> x)))
           \<and> (\<exists>e. num_education_facilities s = Some e
                  \<and> (e = NaN \<or> (\<exists>x. e = Fin x \<and> 0 \<le> x)))
           \<longrightarrow> (\<exists>d. projected_demand r' = Fin d \<and> 0 < d)))
   \<and> (run_lcoe_model r = Inr out \<and> 1 \<le> households r \<and> households r \<le> 2 ^ 53
        \<and> tier r \<in> {1, 2, 3} \<longrightarrow>
          (mask_invalid_of r \<longrightarrow> lcoe_shs out = Fin 999.9)
        \<and> ((\<exists>d. projected_demand r = Fin d \<and> 0 < d) \<longrightarrow> (\<exists>v. lcoe_shs out = Fin v))
        \<and> (\<not> mask_invalid_of r \<and> projected_demand r = Fin 0 \<longrightarrow> lcoe_shs out = PInf)
        \<and> (\<not> mask_invalid_of r \<and> projected_demand r = NaN \<longrightarrow> lcoe_shs out = NaN))"
proof -
  have dem: "households r' = max 1 \<lceil>population s / hh_size r'\<rceil> \<and> 1 \<le> households r'
      \<and> households r' \<le> 2 ^ 53 \<and> 850 * households r' < 2 ^ 63
      \<and> tier r' \<in> {1, 2, 3}
      \<and> ((num_buildings s = None \<or> (\<exists>b. num_buildings s = Some (Fin b) \<and> 0 \<le> b))
           \<and> (\<exists>h. num_health_facilities s = Some h
                  \<and> (h = NaN \<or> (\<exists>x. h = Fin x \<and> 0 \<le> x)))
           \<and> (\<exists>e. num_education_facilities s = Some e
                  \<and> (e = NaN \<or> (\<exists>x. e = Fin x \<and> 0 \<le> x)))
           \<longrightarrow> (\<exists>d. projected_demand r' = Fin d \<and> 0 < d))"
    if a: "run_demand_model s = Inr r' \<and> population s \<le> 2 ^ 53"
  proof -
    from a have r': "run_demand_model s = Inr r'" and b: "population s \<le> 2 ^ 53"
      by simp_all
    note f = run_demand_model_fields [OF r']
    note pos = run_demand_model_positive [OF r']
    have "1 \<le> households r'"
      using f(2) households_of_pos [of s] by simp
    moreover have le: "households r' \<le> 2 ^ 53"
      using f(2) households_of_le [OF b] by simp
    moreover have "850 * households r' < 2 ^ 63"
      using le by simp
    moreover have "tier r' \<in> {1, 2, 3}"
      using f(3) tier_of_range [of s] by simp
    moreover have "households r' = max 1 \<lceil>population s / hh_size r'\<rceil>"
      using f(2,4) by (simp add: households_of_def)
    ultimately show ?thesis using pos by blast
  qed
  have shs: "(mask_invalid_of r \<longrightarrow> lcoe_shs out = Fin 999.9)
        \<and> ((\<exists>d. projected_demand r = Fin d \<and> 0 < d) \<longrightarrow> (\<exists>v. lcoe_shs out = Fin v))
        \<and> (\<not> mask_invalid_of r \<and> projected_demand r = Fin 0 \<longrightarrow> lcoe_shs out = PInf)
        \<and> (\<not> mask_invalid_of r \<and> projected_demand r = NaN \<longrightarrow> lcoe_shs out = NaN)"
    if a: "run_lcoe_model r = Inr out \<and> 1 \<le> households r \<and> households r \<le> 2 ^ 53
        \<and> tier r \<in> {1, 2, 3}"
  proof -
    from a have out: "run_lcoe_model r = Inr out" and h: "1 \<le> households r"
      and t: "tier r \<in> {1, 2, 3}" by simp_all
    note g = run_lcoe_model_fields(3) [OF out]
    have a: "lcoe_shs out = Fin 999.9" if "mask_invalid_of r"
      using that g by (simp add: lcoe_shs_of_def Let_def)
    have b: "\<exists>v. lcoe_shs out = Fin v" if "\<exists>d. projected_demand r = Fin d \<and> 0 < d"
      using that g lcoe_shs_of_finite [OF _ _ h t, of _ "crf_at 5"] by auto
    have c: "lcoe_shs out = PInf" if "\<not> mask_invalid_of r \<and> projected_demand r = Fin 0"
      using that g lcoe_shs_of_zero_demand [OF _ h t] by simp
    have d: "lcoe_shs out = NaN" if "\<not> mask_invalid_of r \<and> projected_demand r = NaN"
      using that g lcoe_shs_of_null_demand [of r "crf_at 5"] by simp
    show ?thesis using a b c d by blast
  qed
  show ?thesis using dem shs by blast
qed

theorem division_guards_witness:
  "(\<exists>r. run_demand_model village = Inr r \<and> population village \<le> 2 ^ 53
        \<and> 1 \<le> households r \<and> 850 * households r < 2 ^ 63)
   \<and> (\<exists>out. run_lcoe_model idle_row = Inr out \<and> households idle_row \<le> 2 ^ 53
        \<and> lcoe_shs out = PInf)"
proof -
  obtain r where r: "run_demand_model village = Inr r"
    using village_returns by blast
  obtain out where out: "run_lcoe_model idle_row = Inr out"
    using idle_row_lcoe by blast
  have m: "\<not> mask_invalid_of idle_row"
    by (simp add: mask_invalid_of_def Let_def idle_row_values MAX_TIER_SHS_def)
  have i: "1 \<le> households idle_row \<and> households idle_row \<le> 2 ^ 53
      \<and> tier idle_row \<in> {1, 2, 3}"
    "projected_demand idle_row = Fin 0"
    by (simp_all add: idle_row_values)
  have v: "population village \<le> 2 ^ 53" by (simp add: village_def)
  from division_guards [of village r idle_row out] r out m i v show ?thesis by blast
qed



section \<open>The solar-kit sentinel\<close>

text \<open>
  A masked row gets the solar-kit LCOE 999.9, and the selection then takes the solar kit
  as soon as neither of the other two LCOE values is a number up to 999.9.
\<close>

lemma sentinel_selected:
  assumes "run_lcoe_model r = Inr out" and "mask_invalid_of r"
    and "lcoe_grid out = NaN \<or> Fin 999.9 < lcoe_grid out"
    and "lcoe_mg out = NaN \<or> Fin 999.9 < lcoe_mg out"
  shows "lcoe_shs out = Fin 999.9" "optimal_tech out = Some ''SHS''"
proof -
  note g = run_lcoe_model_fields [OF assms(1)]
  show s: "lcoe_shs out = Fin 999.9"
    using g(3) assms(2) by (simp add: lcoe_shs_of_def Let_def)
  have "argmin_filled [(''lcoe_grid'', lcoe_grid out), (''lcoe_mg'', lcoe_mg out),
      (''lcoe_shs'', Fin 999.9)] = Some (''lcoe_shs'', Fin 999.9)"
    using assms(3,4)
    by (cases "lcoe_grid out"; cases "lcoe_mg out")
      (auto simp add: argmin_filled_def fill_pinf_def)
  then show "optimal_tech out = Some ''SHS''"
    unfolding g(5) s by (simp add: idxmin_def tech_labels_def)
qed

lemma kiosk_row_values:
  "households kiosk_row = 1" "tier kiosk_row = 1" "projected_demand kiosk_row = Fin 0.01"
  "projected_peak kiosk_row = Fin 0"
  "dem_comm kiosk_row = Fin 600" "dem_agri kiosk_row = Fin 0" "dem_pub kiosk_row = Fin 0"
  "dist_to_substations kiosk_row = Some (Fin 50)"
  "distance_to_existing_transmission_lines kiosk_row = Some (Fin 10)"
  "main_road_access kiosk_row = Some (Fin 1)"
  by (simp_all add: kiosk_row_def village_def settlement.defs demand_row.defs)

lemma kiosk_row_dist: "dist_grid_of kiosk_row = Inr (Fin (320 / 7))"
  by (simp add: dist_grid_of_def get_def kiosk_row_values penalty_km_def np_minimum_def
      SUBSTATION_COST_def MV_COST_KM_def)

lemma kiosk_row_grid:
  "0 < c \<Longrightarrow> Fin 999.9 < lcoe_grid_of kiosk_row (capex_grid_of kiosk_row (Fin (320 / 7))) c"
  by (simp add: lcoe_grid_of_def capex_grid_of_def Let_def peak_of_def hh_of_def
      terrain_factor_of_def get_def kiosk_row_values MV_COST_KM_def LV_COST_KM_def
      TRANSFORMER_COST_def CONN_GRID_def GRID_LOSS_def GRID_PRICE_def)


lemma capex_mg_of_finite:
  assumes "projected_demand r = Fin d" "projected_peak r = Fin p"
  shows "capex_mg_of r =
    Fin (d / 365 / (CF_SOLAR * 8760 * 0.85) * 1.2 * PV_COST
         + d / 365 / 0.8 * BATT_COST
         + (d / 365 / 0.8 * BATT_COST / (1 + DISCOUNT_RATE) ^ 7
            + d / 365 / 0.8 * BATT_COST / (1 + DISCOUNT_RATE) ^ 14)
         + p * 0.6 * 1.25 * INV_COST
         + of_int (households r) * CONN_MG
         + of_int (households r) * 0.1 * LV_COST_KM)"
proof -
  have a: "CF_SOLAR * 8760 * 0.85 \<noteq> 0" by (simp add: CF_SOLAR_def)
  have b: "1 + DISCOUNT_RATE \<noteq> 0" by (simp add: DISCOUNT_RATE_def)
  show ?thesis
    unfolding capex_mg_of_def Let_def pv_kw_of_def batt_kwh_of_def batt_pv_of_def
      daily_load_of_def peak_of_def hh_of_def assms
    using a b by simp
qed

lemma kiosk_row_mg: "0 < c \<Longrightarrow> Fin 999.9 < lcoe_mg_of kiosk_row c"
proof -
  assume c: "0 < c"
  define d :: real where "d = 0.01"
  define x :: real where "x = d / 365 / (CF_SOLAR * 8760 * 0.85) * 1.2 * PV_COST
         + d / 365 / 0.8 * BATT_COST
         + (d / 365 / 0.8 * BATT_COST / (1 + DISCOUNT_RATE) ^ 7
            + d / 365 / 0.8 * BATT_COST / (1 + DISCOUNT_RATE) ^ 14)"
  have x: "0 \<le> x"
    unfolding x_def d_def
    by (intro add_nonneg_nonneg divide_nonneg_nonneg mult_nonneg_nonneg zero_le_power)
      (simp_all add: CF_SOLAR_def PV_COST_def BATT_COST_def DISCOUNT_RATE_def)
  have cap: "capex_mg_of kiosk_row = Fin (x + 650)"
    unfolding capex_mg_of_finite [OF kiosk_row_values(3,4)] x_def d_def
    by (simp add: kiosk_row_values INV_COST_def CONN_MG_def LV_COST_KM_def)
  define y where "y = (x + 650) * c"
  have y: "0 \<le> y" using x c by (simp add: y_def)
  define k where "k = (x + 650) * (3 / 100)"
  have k: "39 / 2 \<le> k" using x by (simp add: k_def)
  have "9999 / 1000 < y + k" using y k by linarith
  then have "9999 / 1000 < y + (x + 650) * (3 / 100)" by (simp only: k_def)
  then have "999.9 < (y + (x + 650) * 0.03) / 0.01"
    by simp
  then have "999.9 < ((x + 650) * c + (x + 650) * 0.03) / 0.01"
    by (simp only: y_def)
  then show ?thesis
    by (simp add: lcoe_mg_of_def Let_def cap kiosk_row_values)
qed


lemma outpost_lcoe:
  "\<exists>r out. run_demand_model outpost = Inr r \<and> run_lcoe_model r = Inr out
     \<and> dem_agri out = Fin 4500 \<and> lcoe_shs out = Fin 999.9
     \<and> optimal_tech out = Some ''SHS'' \<and> lcoe_grid out = NaN \<and> lcoe_mg out = NaN"
proof -
  obtain r where r: "run_demand_model outpost = Inr r"
    using run_demand_model_returns [of outpost] by (auto simp add: outpost_def village_def)
  obtain out where out: "run_lcoe_model r = Inr out"
    using run_lcoe_model_returns [of r] run_demand_model_columns(3,4) [OF r]
    by (auto simp add: outpost_def village_def)
  note f = run_demand_model_fields [OF r]
  have d: "projected_demand r = NaN"
    by (intro null_buildings_demand(2) [OF r]) (simp_all add: outpost_def village_def)
  have u: "\<not> is_urban_of outpost"
    by (simp add: is_urban_of_def outpost_def village_def get_def)
  have a: "dem_agri r = Fin 4500"
    using f(8) u
    by (simp add: estimate_agri_loads_def Let_def get_def py_int_def LOADS_mill_def
        outpost_def village_def)
  have m: "mask_invalid_of r"
    by (simp add: mask_invalid_of_def Let_def a)
  note g = run_lcoe_model_fields [OF out]
  have mg: "lcoe_mg out = NaN"
    using g(2) by (simp add: lcoe_mg_of_def Let_def d)
  have grid: "lcoe_grid out = NaN"
    using g(1) by (auto simp add: lcoe_grid_of_def Let_def d)
  from sentinel_selected [OF out m] mg grid r out a run_lcoe_model_keeps(4) [OF out]
  show ?thesis by auto
qed

lemma kiosk_row_lcoe:
  "\<exists>out. run_lcoe_model kiosk_row = Inr out \<and> lcoe_shs out = Fin 999.9
     \<and> optimal_tech out = Some ''SHS''"
proof -
  obtain out where out: "run_lcoe_model kiosk_row = Inr out"
    using run_lcoe_model_returns [of kiosk_row] by (auto simp add: kiosk_row_values)
  have m: "mask_invalid_of kiosk_row"
    by (simp add: mask_invalid_of_def Let_def kiosk_row_values)
  note g = run_lcoe_model_fields [OF out]
  have mg: "Fin 999.9 < lcoe_mg out"
    using g(2) kiosk_row_mg [OF crf_at_pos [of 20]] by simp
  have grid: "Fin 999.9 < lcoe_grid out"
    using g(1) kiosk_row_dist kiosk_row_grid [OF crf_at_pos [of 40]] by auto
  from sentinel_selected [OF out m] mg grid out show ?thesis by auto
qed

text \<open>
  Through the whole pipeline the sentinel does its work as long as the counts are numbers:
  the capital cost of the mini-grid is then at most 26 USD per kWh of projected demand, its
  LCOE at most 27 USD per kWh, and a masked settlement is not assigned the solar kit.
\<close>

lemma run_demand_model_shape:
  assumes "run_demand_model s = Inr r"
    and "num_buildings s = None \<or> (\<exists>b. num_buildings s = Some (Fin b) \<and> 0 \<le> b)"
    and "\<exists>h. num_health_facilities s = Some h \<and> (h = NaN \<or> (\<exists>x. h = Fin x \<and> 0 \<le> x))"
    and "\<exists>e. num_education_facilities s = Some e \<and> (e = NaN \<or> (\<exists>x. e = Fin x \<and> 0 \<le> x))"
  shows "\<exists>k u l z. 35 \<le> k \<and> 0.85 \<le> u \<and> 0.18 \<le> l \<and> 0 \<le> z
    \<and> projected_demand r = Fin ((of_int (households r) * k * u + z) * growth)
    \<and> projected_peak r = Fin ((of_int (households r) * k + z) * growth / 8760 / l)"
proof -
  note f = run_demand_model_fields [OF assms(1)]
  note t = run_demand_model_totals [OF assms(1)]
  obtain c where c: "dem_comm r = Fin c" "0 \<le> c"
    using dem_comm_of_finite [OF assms(2)] f(7) by auto
  obtain pb where pb: "dem_pub r = Fin pb" "0 \<le> pb"
    using dem_pub_of_finite [OF assms(3,4)] f(9) by auto
  obtain a where a: "dem_agri r = Fin a" "0 \<le> a"
    using f(8) estimate_agri_loads_nonneg by blast
  have tr: "tier_of s \<in> {1, 2, 3}" by (rule tier_of_range)
  define k :: real where "k = (if tier_of s = 1 then 35 else if tier_of s = 2 then 220 else 850)"
  define l :: real where "l = (if tier_of s = 1 then 0.18 else if tier_of s = 2 then 0.20 else 0.25)"
  have k: "kwh_hh r = Fin k" "35 \<le> k"
    using tier_table_values(1) [OF tr] f(5) by (simp_all add: k_def)
  have l: "lf r = Fin l" "0.18 \<le> l"
    using tier_table_values(2) [OF tr] f(6) by (simp_all add: l_def)
  define u :: real where "u = (if is_urban r then 0.95 else TARGET_UPTAKE_2040)"
  have u: "0.85 \<le> u" by (simp add: u_def TARGET_UPTAKE_2040_def)
  have z: "0 \<le> c + a + pb" using c(2) a(2) pb(2) by simp
  have d: "projected_demand r = Fin ((of_int (households r) * k * u + (c + a + pb)) * growth)"
    unfolding t(2) t(1) c(1) a(1) pb(1) k(1) by (simp add: u_def add.assoc)
  have "l \<noteq> 0" using l(2) by simp
  then have p: "projected_peak r =
      Fin ((of_int (households r) * k + (c + a + pb)) * growth / 8760 / l)"
    unfolding t(3) c(1) a(1) pb(1) k(1) l(1) by (simp add: add.assoc)
  show ?thesis using k(2) u l(2) z d p by blast
qed

lemma one_le_growth: "1 \<le> growth"
  unfolding growth_def by (intro one_le_power) (simp add: POP_GROWTH_def WEALTH_GROWTH_def)

lemma crf_at_20_le: "crf_at 20 \<le> 1"
proof -
  define q :: real where "q = (1 + DISCOUNT_RATE) ^ 20"
  have "1 + 20 * DISCOUNT_RATE \<le> (1 + DISCOUNT_RATE) ^ 20"
    using Bernoulli_inequality [of DISCOUNT_RATE 20] by (simp add: DISCOUNT_RATE_def)
  then have q: "2 \<le> q" by (simp add: q_def DISCOUNT_RATE_def)
  then have "DISCOUNT_RATE * q \<le> q - 1" by (simp add: DISCOUNT_RATE_def)
  moreover have "0 < q - 1" using q by simp
  ultimately have "DISCOUNT_RATE * q / (q - 1) \<le> 1" by simp
  then show ?thesis by (simp add: crf_at_def q_def)
qed


lemma capex_mg_bound:
  fixes h k u l z G D P R1 R2 :: real
  assumes h: "1 \<le> h" and k: "35 \<le> k" and u: "0.85 \<le> u" and l: "0.18 \<le> l"
    and z: "0 \<le> z" and G: "1 \<le> G"
    and D: "D = (h * k * u + z) * G" and P: "P = (h * k + z) * G / 8760 / l"
    and R1: "R1 \<le> D / 365 / 0.8 * 300" and R2: "R2 \<le> D / 365 / 0.8 * 300"
  shows "D / 365 / (0.18 * 8760 * 0.85) * 1.2 * 700 + D / 365 / 0.8 * 300 + (R1 + R2)
         + P * 0.6 * 1.25 * 180 + h * 100 + h * 0.1 * 5500 \<le> 26 * D"
    and "0 < D"
proof -
  have hk: "35 \<le> h * k" using h k mult_mono [of 1 h 35 k] by simp
  have hku: "h * (35 * 0.85) \<le> h * k * u"
  proof -
    have "h * 35 \<le> h * k" using h k by (intro mult_left_mono) simp_all
    then have "h * 35 * 0.85 \<le> h * k * u"
      using u hk mult_mono [of "h * 35" "h * k" "0.85" u] by simp
    then show ?thesis by simp
  qed
  define W where "W = h * k + z"
  define V where "V = h * k * u + z"
  have W0: "0 \<le> W" using hk z by (simp add: W_def)
  have "h * k * 0.85 \<le> h * k * u" using u hk by (intro mult_left_mono) simp_all
  then have WV: "W * 0.85 \<le> V" using z by (simp add: W_def V_def algebra_simps)
  have V0: "h * (35 * 0.85) \<le> V" using hku z by (simp add: V_def)
  have VD: "V \<le> D" unfolding D V_def [symmetric]
    using G V0 h mult_left_mono [of 1 G V] by simp
  show D0: "0 < D" using VD V0 h by simp
  have hD: "h * (35 * 0.85) \<le> D" using V0 VD by simp
  have WG: "W * G * 0.85 \<le> D"
  proof -
    have "W * 0.85 * G \<le> V * G" using WV G by (intro mult_right_mono) simp_all
    then show ?thesis by (simp add: D V_def mult_ac)
  qed
  have WG0: "0 \<le> W * G" using W0 G by simp
  have "P = W * G / 8760 / l" by (simp add: P W_def)
  also have "\<dots> \<le> W * G / 8760 / 0.18"
    using l WG0 by (intro divide_left_mono) simp_all
  finally have PW: "P * (8760 * 0.18) \<le> W * G" by (simp add: mult_ac)
  then have PD: "P * (8760 * 0.18 * 0.85) \<le> D" using WG by simp
  show "D / 365 / (0.18 * 8760 * 0.85) * 1.2 * 700 + D / 365 / 0.8 * 300 + (R1 + R2)
         + P * 0.6 * 1.25 * 180 + h * 100 + h * 0.1 * 5500 \<le> 26 * D"
    using R1 R2 PD hD D0 by simp
qed


lemma pipeline_lcoe_mg_bound:
  assumes "run_demand_model s = Inr r" and "run_lcoe_model r = Inr out"
    and "num_buildings s = None \<or> (\<exists>b. num_buildings s = Some (Fin b) \<and> 0 \<le> b)"
    and "\<exists>h. num_health_facilities s = Some h \<and> (h = NaN \<or> (\<exists>x. h = Fin x \<and> 0 \<le> x))"
    and "\<exists>e. num_education_facilities s = Some e \<and> (e = NaN \<or> (\<exists>x. e = Fin x \<and> 0 \<le> x))"
  shows "\<exists>m. lcoe_mg out = Fin m \<and> m \<le> 27"
proof -
  obtain k u l z where b: "35 \<le> k" "0.85 \<le> u" "0.18 \<le> l" "0 \<le> z"
    and d: "projected_demand r = Fin ((of_int (households r) * k * u + z) * growth)"
    and p: "projected_peak r = Fin ((of_int (households r) * k + z) * growth / 8760 / l)"
    using run_demand_model_shape [OF assms(1,3,4,5)] by blast
  define h :: real where "h = of_int (households r)"
  define D where "D = (h * k * u + z) * growth"
  define P where "P = (h * k + z) * growth / 8760 / l"
  have h: "1 \<le> h"
    using run_demand_model_fields(2) [OF assms(1)] households_of_pos [of s] by (simp add: h_def)
  define B where "B = D / 365 / 0.8 * 300"
  define R1 where "R1 = B / (1 + DISCOUNT_RATE) ^ 7"
  define R2 where "R2 = B / (1 + DISCOUNT_RATE) ^ 14"
  define X where "X = D / 365 / (0.18 * 8760 * 0.85) * 1.2 * 700 + B + (R1 + R2)
         + P * 0.6 * 1.25 * 180 + h * 100 + h * 0.1 * 5500"
  have q: "1 \<le> (1 + DISCOUNT_RATE) ^ n" for n
    by (intro one_le_power) (simp add: DISCOUNT_RATE_def)
  have D0: "0 < D"
    by (rule capex_mg_bound(2) [OF h b one_le_growth D_def P_def order_refl order_refl])
  then have B0: "0 \<le> B" by (simp add: B_def)
  have shrink: "B / (1 + DISCOUNT_RATE) ^ n \<le> B" for n
  proof -
    have "0 < (1 + DISCOUNT_RATE) ^ n" using q [of n] by linarith
    then show ?thesis using divide_left_mono [OF q [of n] B0] by simp
  qed
  have r1: "R1 \<le> D / 365 / 0.8 * 300"
    unfolding R1_def B_def [symmetric] by (rule shrink)
  have r2: "R2 \<le> D / 365 / 0.8 * 300"
    unfolding R2_def B_def [symmetric] by (rule shrink)
  have X: "X \<le> 26 * D"
    unfolding X_def B_def
    by (rule capex_mg_bound(1) [OF h b one_le_growth D_def P_def r1 r2])
  have cap: "capex_mg_of r = Fin X"
    unfolding capex_mg_of_finite [OF d p]
    by (simp add: X_def B_def R1_def R2_def D_def P_def h_def CF_SOLAR_def PV_COST_def
        BATT_COST_def INV_COST_def CONN_MG_def LV_COST_KM_def)
  define c where "c = crf_at 20 + 0.03"
  have c: "0 \<le> c" "c \<le> 1.03"
    using crf_at_pos [of 20] crf_at_20_le by (simp_all add: c_def)
  have "X * c \<le> 26 * D * c" using X c(1) by (intro mult_right_mono)
  also have "\<dots> \<le> 26 * D * 1.03" using c(2) D0 by (intro mult_left_mono) simp_all
  finally have "X * c / D \<le> 26 * 1.03" using D0 by (simp add: divide_le_eq)
  also have "\<dots> \<le> (27 :: real)" by simp
  finally have "X * c / D \<le> 27" .
  moreover have "X * crf_at 20 + X * 0.03 = X * c" by (simp add: c_def algebra_simps)
  ultimately have m: "(X * crf_at 20 + X * 0.03) / D \<le> 27" by (simp only:)
  have d': "projected_demand r = Fin D" by (simp add: d D_def h_def)
  have "lcoe_mg out = Fin ((X * crf_at 20 + X * 0.03) / D)"
    using run_lcoe_model_fields(2) [OF assms(2)] D0
    by (simp add: lcoe_mg_of_def Let_def cap d')
  with m show ?thesis by blast
qed

lemma masked_settlement_not_solar_kit:
  assumes "run_demand_model s = Inr r" and "run_lcoe_model r = Inr out"
    and "num_buildings s = None \<or> (\<exists>b. num_buildings s = Some (Fin b) \<and> 0 \<le> b)"
    and "\<exists>h. num_health_facilities s = Some h \<and> (h = NaN \<or> (\<exists>x. h = Fin x \<and> 0 \<le> x))"
    and "\<exists>e. num_education_facilities s = Some e \<and> (e = NaN \<or> (\<exists>x. e = Fin x \<and> 0 \<le> x))"
    and "mask_invalid_of r"
  shows "lcoe_shs out = Fin 999.9" "optimal_tech out \<noteq> Some ''SHS''"
proof -
  note g = run_lcoe_model_fields [OF assms(2)]
  obtain m where m: "lcoe_mg out = Fin m" "m \<le> 27"
    using pipeline_lcoe_mg_bound [OF assms(1,2,3,4,5)] by blast
  show s: "lcoe_shs out = Fin 999.9"
    using g(3) assms(6) by (simp add: lcoe_shs_of_def Let_def)
  show "optimal_tech out \<noteq> Some ''SHS''"
    unfolding g(5) s m(1) using m(2)
    by (cases "lcoe_grid out")
      (auto simp add: idxmin_def argmin_filled_def fill_pinf_def tech_labels_def)
qed

text \<open>
  Claim C3 says that a settlement above the solar-kit tier ceiling or with productive or
  public demand gets \<open>lcoe_shs = 999.9\<close> and is never assigned the solar kit. The code
  writes the sentinel, but the selection treats it as a cost like any other, against its
  own comment ("no SHS for productive/public loads"). The row of one household with one
  SME unit and a projected demand of 0.01 kWh has both other LCOE values above 999.9, and
  the village with a null \<open>num_buildings\<close> cell, which has a grain mill, has both other LCOE
  values null: both are assigned the solar kit, each with \<open>lcoe_shs = 999.9\<close>.
\<close>

theorem sentinel_not_a_gate:
  "\<not> isl (run_lcoe_model kiosk_row) \<and> Fin 0 < dem_comm kiosk_row
   \<and> lcoe_shs (projr (run_lcoe_model kiosk_row)) = Fin 999.9
   \<and> optimal_tech (projr (run_lcoe_model kiosk_row)) = Some ''SHS''
   \<and> \<not> isl (main outpost) \<and> Fin 0 < dem_agri (projr (main outpost))
   \<and> lcoe_shs (projr (main outpost)) = Fin 999.9
   \<and> optimal_tech (projr (main outpost)) = Some ''SHS''"
proof -
  obtain out where out: "run_lcoe_model kiosk_row = Inr out" "lcoe_shs out = Fin 999.9"
    "optimal_tech out = Some ''SHS''"
    using kiosk_row_lcoe by blast
  obtain r out' where o: "run_demand_model outpost = Inr r" "run_lcoe_model r = Inr out'"
    "dem_agri out' = Fin 4500" "lcoe_shs out' = Fin 999.9" "optimal_tech out' = Some ''SHS''"
    using outpost_lcoe by blast
  have "main outpost = Inr out'" using o by (simp add: main_def)
  then show ?thesis
    using out o by (simp add: kiosk_row_values)
qed



section \<open>Least-cost selection\<close>

lemma null_as_inf_number [simp]: "x \<noteq> NaN \<Longrightarrow> null_as_inf x = x"
  by (cases x) (simp_all add: null_as_inf_def)

lemma null_as_inf_not_null [simp]: "null_as_inf x \<noteq> NaN"
  by (cases x) (simp_all add: null_as_inf_def)







section \<open>Mini-grid capital cost\<close>

lemma village_row: "run_demand_model village = Inr village_row"
  using village_returns by (auto simp add: village_row_def)

lemma capex_mg_as_claimed_finite:
  assumes "projected_demand r = Fin d" "projected_peak r = Fin p"
  shows "capex_mg_as_claimed r =
    Fin (d / 365 / (CF_SOLAR * 8760 * 0.85) * 1.2 * PV_COST
         + d / 365 / 0.8 * BATT_COST
         + (d / 365 / 0.8 * BATT_COST / (1 + DISCOUNT_RATE) ^ 7
            + d / 365 / 0.8 * BATT_COST / (1 + DISCOUNT_RATE) ^ 14)
         + p * 1.25 * INV_COST
         + of_int (households r) * CONN_MG
         + of_int (households r) * 0.1 * LV_COST_KM)"
proof -
  have a: "CF_SOLAR * 8760 * 0.85 \<noteq> 0" by (simp add: CF_SOLAR_def)
  have b: "1 + DISCOUNT_RATE \<noteq> 0" by (simp add: DISCOUNT_RATE_def)
  show ?thesis
    unfolding capex_mg_as_claimed_def Let_def pv_kw_of_def batt_kwh_of_def batt_pv_of_def
      daily_load_of_def hh_of_def assms
    using a b by simp
qed

lemma capex_mg_gap:
  assumes "projected_demand r = Fin d" "projected_peak r = Fin p"
  shows "\<exists>x. capex_mg_of r = Fin x \<and> capex_mg_as_claimed r = Fin (x + p * 0.4 * 1.25 * INV_COST)"
  unfolding capex_mg_of_finite [OF assms] capex_mg_as_claimed_finite [OF assms]
  by (simp add: algebra_simps)

lemma peak_row_values:
  "households peak_row = 1" "projected_demand peak_row = Fin 0"
  "projected_peak peak_row = Fin 1"
  by (simp_all add: peak_row_def idle_row_def village_def settlement.defs demand_row.defs)

text \<open>
  Claim C2 says that the inverter term of the mini-grid capital cost is the design peak
  \<open>projected_peak\<close> times 1.25 times the inverter unit cost. The code takes the variable
  \<open>peak\<close> there, which is \<open>projected_peak * 0.6\<close>, the diversified peak of the grid
  section. For one household, no demand and a design peak of 1 kW the code gives 785 USD
  and the claim 875 USD; for the village the two capital costs differ, and so does the
  mini-grid LCOE that \<open>run_lcoe_model\<close> writes from the one the claim's cost would give.
\<close>

theorem inverter_on_diversified_peak:
  "capex_mg_of peak_row = Fin 785 \<and> capex_mg_as_claimed peak_row = Fin 875
   \<and> \<not> isl (main village)
   \<and> capex_mg_of village_row \<noteq> capex_mg_as_claimed village_row
   \<and> lcoe_mg (projr (main village)) \<noteq>
       (capex_mg_as_claimed village_row * Fin (crf_at 20)
          + capex_mg_as_claimed village_row * Fin 0.03) / projected_demand village_row"
proof -
  have a: "capex_mg_of peak_row = Fin 785"
    unfolding capex_mg_of_finite [OF peak_row_values(2,3)]
    by (simp add: peak_row_values INV_COST_def CONN_MG_def LV_COST_KM_def)
  have b: "capex_mg_as_claimed peak_row = Fin 875"
    unfolding capex_mg_as_claimed_finite [OF peak_row_values(2,3)]
    by (simp add: peak_row_values INV_COST_def CONN_MG_def LV_COST_KM_def)
  obtain out where out: "run_lcoe_model village_row = Inr out"
    using village_returns village_row by auto
  then have m: "main village = Inr out" by (simp add: main_def village_row)
  obtain d p where d: "projected_demand village_row = Fin d" "0 < d"
    and p: "projected_peak village_row = Fin p" "0 < p"
    using run_demand_model_positive [OF village_row] by (auto simp add: village_def)
  obtain x where x: "capex_mg_of village_row = Fin x"
    "capex_mg_as_claimed village_row = Fin (x + p * 0.4 * 1.25 * INV_COST)"
    using capex_mg_gap [OF d(1) p(1)] by blast
  define e where "e = p * 0.4 * 1.25 * INV_COST"
  have e: "0 < e" using p(2) by (simp add: e_def INV_COST_def)
  have c: "0 < crf_at 20 + 0.03" using crf_at_pos [of 20] by simp
  have "lcoe_mg out = Fin ((x * crf_at 20 + x * 0.03) / d)"
    using run_lcoe_model_fields(2) [OF out] d by (simp add: lcoe_mg_of_def Let_def x(1))
  moreover have "(x * crf_at 20 + x * 0.03) / d \<noteq> ((x + e) * crf_at 20 + (x + e) * 0.03) / d"
  proof -
    have "(x + e) * crf_at 20 + (x + e) * 0.03 = (x * crf_at 20 + x * 0.03) + e * (crf_at 20 + 0.03)"
      by (simp add: algebra_simps)
    moreover have "0 < e * (crf_at 20 + 0.03)" using e c by (rule mult_pos_pos)
    ultimately have "x * crf_at 20 + x * 0.03 < (x + e) * crf_at 20 + (x + e) * 0.03"
      by linarith
    then have "(x * crf_at 20 + x * 0.03) / d < ((x + e) * crf_at 20 + (x + e) * 0.03) / d"
      using d(2) by (simp only: divide_strict_right_mono)
    then show ?thesis by (rule less_imp_neq)
  qed
  ultimately have l: "lcoe_mg out \<noteq>
       (capex_mg_as_claimed village_row * Fin (crf_at 20)
          + capex_mg_as_claimed village_row * Fin 0.03) / projected_demand village_row"
    using d by (simp add: x(2) e_def)
  have "x \<noteq> x + e" using e by simp
  then have ne: "capex_mg_of village_row \<noteq> capex_mg_as_claimed village_row"
    unfolding x e_def by simp
  show ?thesis using a b m ne l by simp
qed


text \<open>
  Claim C2 as amended. For every settlement whose projected demand and design peak are
  numbers, the mini-grid capital cost is PV cost + battery cost + discounted battery
  replacements + (\<open>projected_peak\<close> times the diversity factor 0.6) times 1.25 times the
  inverter unit cost + households times the connection fee + households times 0.1 km
  times the LV cost per km; \<open>lcoe_mg\<close> is computed from this cost, which is below the
  claim's by \<open>0.4 * projected_peak * 1.25 * INV_COST\<close>.
\<close>

theorem minigrid_capital_cost:
  assumes "run_lcoe_model r = Inr out"
    and "projected_demand r = Fin d" and "projected_peak r = Fin p"
  shows "capex_mg_of r =
      Fin (d / 365 / (CF_SOLAR * 8760 * 0.85) * 1.2 * PV_COST
           + d / 365 / 0.8 * BATT_COST
           + (d / 365 / 0.8 * BATT_COST / (1 + DISCOUNT_RATE) ^ 7
              + d / 365 / 0.8 * BATT_COST / (1 + DISCOUNT_RATE) ^ 14)
           + p * 0.6 * 1.25 * INV_COST
           + of_int (households r) * CONN_MG
           + of_int (households r) * 0.1 * LV_COST_KM)
    \<and> lcoe_mg out = (capex_mg_of r * Fin (crf_at 20) + capex_mg_of r * Fin 0.03) / Fin d
    \<and> (\<exists>x. capex_mg_of r = Fin x
           \<and> capex_mg_as_claimed r = Fin (x + p * 0.4 * 1.25 * INV_COST))"
proof -
  note g = run_lcoe_model_fields [OF assms(1)]
  have l: "lcoe_mg out = (capex_mg_of r * Fin (crf_at 20) + capex_mg_of r * Fin 0.03) / Fin d"
    using g(2) by (simp add: lcoe_mg_of_def Let_def assms(2))
  show ?thesis
    using capex_mg_of_finite [OF assms(2,3)] l capex_mg_gap [OF assms(2,3)] by blast
qed

theorem minigrid_capital_cost_witness:
  "\<exists>out. run_lcoe_model peak_row = Inr out
     \<and> capex_mg_of peak_row = Fin 785
     \<and> lcoe_mg out = (capex_mg_of peak_row * Fin (crf_at 20)
          + capex_mg_of peak_row * Fin 0.03) / Fin 0"
proof -
  obtain out where out: "run_lcoe_model peak_row = Inr out"
    using run_lcoe_model_returns [of peak_row]
    by (auto simp add: peak_row_def idle_row_values)
  from minigrid_capital_cost [OF out peak_row_values(2,3)]
  have "capex_mg_of peak_row = Fin 785"
    and "lcoe_mg out = (capex_mg_of peak_row * Fin (crf_at 20)
          + capex_mg_of peak_row * Fin 0.03) / Fin 0"
    by (simp_all add: peak_row_values INV_COST_def CONN_MG_def LV_COST_KM_def)
  with out show ?thesis by blast
qed


end
